theory Spec2Isabelle
  imports Main "HOL-Library.Word"
begin

unbundle bit_operations_syntax

section \<open>JavaScript values\<close>

text \<open>
  The values that flow through \<^verbatim>\<open>richtext.js\<close>: \<^verbatim>\<open>undefined\<close>, \<^verbatim>\<open>null\<close>,
  booleans, numbers and strings.  Numbers are restricted to integers (the only
  numbers the code meets are packed colours, offsets and lengths); strings are
  lists of 8-bit characters.  The only exception the code can raise by itself is
  the \<^verbatim>\<open>TypeError\<close> of a property read or a call on \<^verbatim>\<open>undefined\<close>/\<^verbatim>\<open>null\<close>.
\<close>

datatype jsval = JUndef | JNull | JBool bool | JNum int | JStr string

datatype error = TypeError

text \<open>Truthiness, as used by \<^verbatim>\<open>if(x)\<close>, \<^verbatim>\<open>x && y\<close> and \<^verbatim>\<open>x ? a : b\<close>.\<close>

fun truthy :: "jsval \<Rightarrow> bool" where
  "truthy JUndef = False"
| "truthy JNull = False"
| "truthy (JBool b) = b"
| "truthy (JNum n) = (n \<noteq> 0)"
| "truthy (JStr s) = (s \<noteq> [])"

text \<open>\<^verbatim>\<open>Number.prototype.toString(radix)\<close> on a non-negative integer.\<close>

definition digitChar :: "nat \<Rightarrow> char" where
  "digitChar n = ''0123456789abcdef'' ! n"

function numToString :: "nat \<Rightarrow> nat \<Rightarrow> string" where
  "numToString radix n =
     (if n < radix \<or> radix < 2 then [digitChar n]
      else numToString radix (n div radix) @ [digitChar (n mod radix)])"
  by pat_completeness auto
termination
  by (relation "measure snd") auto

declare numToString.simps [simp del]

text \<open>
  String conversion of a value, as done by \<^verbatim>\<open>"..." + v\<close>.  A number is printed
  with all its decimal digits, as JavaScript does below \<open>10 ^ 21\<close> (from there on
  it prints an exponent); the conversion is used for the text of log lines only.
\<close>

fun toString :: "jsval \<Rightarrow> string" where
  "toString JUndef = ''undefined''"
| "toString JNull = ''null''"
| "toString (JBool b) = (if b then ''true'' else ''false'')"
| "toString (JNum n) = (if n < 0 then ''-'' @ numToString 10 (nat (- n)) else numToString 10 (nat n))"
| "toString (JStr s) = s"

section \<open>convertColor\<close>

text \<open>
  \<^verbatim>\<open>function hex(d) { return (d < 16) ? ("0" + d.toString(16)) : d.toString(16); }\<close>
\<close>

definition hex :: "nat \<Rightarrow> string" where
  "hex d = (if d < 16 then ''0'' @ numToString 16 d else numToString 16 d)"

text \<open>
  The regular expression
  \<^verbatim>\<open>/rgb\s*\(\s*([0-9]+)\s*,\s*([0-9]+)\s*,\s*([0-9]+)\s*\)/\<close>.
  Every starred or plussed class is followed by a character outside the class, so
  the greedy left-to-right reading below accepts exactly what the backtracking
  matcher accepts.  \<^verbatim>\<open>\s\<close> is tab, line feed, vertical tab, form feed, carriage
  return, space and no-break space (the white space below code point 256).
\<close>

definition is_space :: "char \<Rightarrow> bool" where
  "is_space c = (of_char c \<in> {9, 10, 11, 12, 13, 32, 160 :: nat})"

definition is_digit :: "char \<Rightarrow> bool" where
  "is_digit c = (c \<in> set ''0123456789'')"

definition skip_ws :: "string \<Rightarrow> string" where
  "skip_ws s = dropWhile is_space s"

definition lit :: "string \<Rightarrow> string \<Rightarrow> string option" where
  "lit p s = (if take (length p) s = p then Some (drop (length p) s) else None)"

definition digits1 :: "string \<Rightarrow> (string \<times> string) option" where
  "digits1 s = (if takeWhile is_digit s = [] then None
                else Some (takeWhile is_digit s, dropWhile is_digit s))"

text \<open>A match anchored at the head of the string; the three groups on success.\<close>

definition match_here :: "string \<Rightarrow> (string \<times> string \<times> string) option" where
  "match_here s =
     (case lit ''rgb'' s of None \<Rightarrow> None | Some s1 \<Rightarrow>
      case lit ''('' (skip_ws s1) of None \<Rightarrow> None | Some s2 \<Rightarrow>
      case digits1 (skip_ws s2) of None \<Rightarrow> None | Some (g1, s3) \<Rightarrow>
      case lit '','' (skip_ws s3) of None \<Rightarrow> None | Some s4 \<Rightarrow>
      case digits1 (skip_ws s4) of None \<Rightarrow> None | Some (g2, s5) \<Rightarrow>
      case lit '','' (skip_ws s5) of None \<Rightarrow> None | Some s6 \<Rightarrow>
      case digits1 (skip_ws s6) of None \<Rightarrow> None | Some (g3, s7) \<Rightarrow>
      case lit '')'' (skip_ws s7) of None \<Rightarrow> None | Some s8 \<Rightarrow>
      Some (g1, g2, g3))"

text \<open>\<^verbatim>\<open>v.match(re)\<close>: the pattern is not anchored, so every start is tried in turn.\<close>

fun re_match :: "string \<Rightarrow> (string \<times> string \<times> string) option" where
  "re_match [] = match_here []"
| "re_match (c # cs) =
     (case match_here (c # cs) of Some g \<Rightarrow> Some g | None \<Rightarrow> re_match cs)"

text \<open>
  \<^verbatim>\<open>parseInt\<close> on a group of decimal digits, read in base ten.  The value is the
  exact one; JavaScript's is a double, which is the same number below \<open>2 ^ 53\<close>
  and a rounded one beyond.  Nothing below is stated of a group that large, nor
  of a group with a leading zero (which engines of the time read in base eight).
\<close>

definition parseInt :: "string \<Rightarrow> nat" where
  "parseInt ds = foldl (\<lambda>a c. 10 * a + (of_char c - 48)) 0 ds"

text \<open>
  \<^verbatim>\<open>convertColor(v)\<close>.  A number goes through \<^verbatim>\<open>&\<close> and \<^verbatim>\<open>>>\<close>, which work on
  its 32-bit two's complement image.  A value that is neither a number nor a
  string has no \<^verbatim>\<open>substr\<close>, and the call \<^verbatim>\<open>v.substr(0, 3)\<close> raises.
\<close>

definition toInt32 :: "int \<Rightarrow> 32 word" where
  "toInt32 v = word_of_int v"

fun convertColor :: "jsval \<Rightarrow> error + jsval" where
  "convertColor (JNum v) =
     (let r = unat (toInt32 v AND 0xFF);
          g = unat (signed_drop_bit 8 (toInt32 v) AND 0xFF);
          b = unat (signed_drop_bit 16 (toInt32 v) AND 0xFF)
      in Inr (JStr (''#'' @ hex r @ hex g @ hex b)))"
| "convertColor (JStr v) =
     (if take 3 v = ''rgb'' then
        (case re_match v of
           Some (g1, g2, g3) \<Rightarrow>
             Inr (JStr (''#'' @ hex (parseInt g1) @ hex (parseInt g2) @ hex (parseInt g3)))
         | None \<Rightarrow> Inr JNull)
      else if take 1 v = ''#'' then Inr (JStr v)
      else Inr JNull)"
| "convertColor _ = Inl TypeError"

section \<open>The host environment\<close>

text \<open>
  The code runs against a browser.  What it reads and writes there is kept in a
  \<open>world\<close>: a store of DOM nodes (the caller's node is shared with the page, so
  nodes are held by address), the rich-editing state the document reports, the
  current selection, the three process-wide instance slots, and a trace of the
  calls that have an effect outside the session object.
\<close>

text \<open>The inline style properties the code touches; \<open>[]\<close> is an unset property.\<close>

record style =
  st_width :: string
  st_height :: string
  st_top :: string
  st_left :: string
  st_position :: string
  st_border :: string
  st_lineHeight :: string
  st_verticalAlign :: string

definition emptyStyle :: style where
  "emptyStyle = \<lparr> st_width = [], st_height = [], st_top = [], st_left = [],
     st_position = [], st_border = [], st_lineHeight = [], st_verticalAlign = [] \<rparr>"

text \<open>The three functions of the file that are registered as event handlers.\<close>

datatype handler = mozSignalIframeChange | webkitCacheSelection | iECacheSelection

text \<open>Where a node hangs: under a node of the page, or in the body of the frame's document.\<close>

datatype parent = PageNode nat | FrameBody

record element =
  nodeType :: nat
  el_style :: style
  offsetHeight :: nat
  parentNode :: "parent option"
  contentEditable :: jsval
  listeners :: "(string \<times> handler \<times> bool) list"
  attachedEvents :: "(string \<times> handler) list"
  innerText :: string

definition ELEMENT_NODE :: nat where "ELEMENT_NODE = 1"
definition TEXT_NODE :: nat where "TEXT_NODE = 3"

text \<open>
  What the document answers to \<^verbatim>\<open>queryCommandState\<close> (a boolean) and
  \<^verbatim>\<open>queryCommandValue\<close> (a string, or on one host a number).
\<close>

datatype cmdvalue = VStr string | VNum int

fun of_cmdvalue :: "cmdvalue \<Rightarrow> jsval" where
  "of_cmdvalue (VStr s) = JStr s"
| "of_cmdvalue (VNum n) = JNum n"

record host =
  queryCommandState :: "string \<Rightarrow> bool"
  queryCommandValue :: "string \<Rightarrow> cmdvalue"

text \<open>The selection object of \<^verbatim>\<open>window.getSelection()\<close>.\<close>

record selection =
  sel_baseNode :: "nat option"
  sel_baseOffset :: "nat option"
  sel_extentNode :: "nat option"
  sel_extentOffset :: "nat option"

text \<open>
  A proprietary text range: where it starts and the text it spans.  Its
  \<^verbatim>\<open>moveStart("character", n)\<close> moves the start \<open>n\<close> characters forward.
\<close>

record range =
  rg_start :: nat
  rg_text :: string

definition moveStart :: "nat \<Rightarrow> range \<Rightarrow> range" where
  "moveStart n r = r\<lparr> rg_start := rg_start r + n, rg_text := drop n (rg_text r) \<rparr>"

text \<open>
  A command-state array as \<^verbatim>\<open>getCommandState\<close> returns it: \<^verbatim>\<open>false\<close>, or an
  array object whose string keys are kept in insertion order (the order in which
  \<^verbatim>\<open>for ... in\<close> visits them).
\<close>

type_synonym snapshot = "(string \<times> jsval) list"

datatype cstate = CFalse | CArray snapshot

datatype event =
    Debug string
  | HostExecCommand string jsval jsval
  | StateChange nat cstate
  | WindowFocus
  | SetBaseAndExtent "nat option" "nat option" "nat option" "nat option"
  | RangeSelect range
  | DocOpen string
  | DocWrite string
  | DocClose

record world =
  nodes :: "nat \<Rightarrow> element"
  next_addr :: nat
  styleElements :: "string list"
  styleSheets :: "jsval list"
  bodyOffsetHeight :: nat
  rich :: host
  windowSelection :: selection
  documentSelection :: "range option"
  EditableGeckoRef :: "nat option"
  editableWebkitRef :: "nat option"
  editableIERef :: "nat option"
  trace :: "event list"

text \<open>
  Two things are taken as parameters: the loose inequality \<^verbatim>\<open>!=\<close> on values, and
  the document's \<^verbatim>\<open>execCommand(name, showUI, value)\<close>, which answers with a boolean
  and may change what the document reports afterwards.
\<close>

record env =
  looseNeq :: "jsval \<Rightarrow> jsval \<Rightarrow> bool"
  docExecCommand :: "string \<Rightarrow> jsval \<Rightarrow> jsval \<Rightarrow> host \<Rightarrow> bool \<times> host"

text \<open>\<^verbatim>\<open>function debug(message, level) { console.log(message); }\<close>\<close>

definition debug :: "string \<Rightarrow> world \<Rightarrow> world" where
  "debug message w = w\<lparr> trace := trace w @ [Debug message] \<rparr>"

section \<open>The session object\<close>

text \<open>
  One record for the object a caller builds with \<^verbatim>\<open>new EditableGecko\<close>,
  \<^verbatim>\<open>new EditableWebkit\<close> or \<^verbatim>\<open>new EditableIE\<close> (or the base class itself): the
  fields of \<^verbatim>\<open>EditableBase\<close> followed by those of each subclass, and \<open>kind\<close> for
  the class whose methods are dispatched.  \<open>None\<close> is \<^verbatim>\<open>null\<close>.  A callback is
  known by a number; calling it is the event \<open>StateChange\<close>.
\<close>

datatype strategy = Base | Gecko | Webkit | Trident

datatype docref = HostingDocument | FrameDocument

record frame =
  fr_style :: style
  fr_scrolling :: string
  fr_parentNode :: "parent option"
  fr_designMode :: string
  fr_body :: "nat list"
  fr_links :: "(string \<times> string \<times> jsval) list"
  fr_docListeners :: "(string \<times> handler \<times> bool) list"
  fr_winListeners :: "(string \<times> handler \<times> bool) list"

record session =
  kind :: strategy
  sid :: nat
  doc :: "docref option"
  node :: "nat option"
  cachedCommandArray :: "cstate option"
  stateChangeCallback :: "nat option"
  iframe :: "frame option"
  originalNode :: "nat option"
  baseNode :: "nat option"
  baseOffset :: "nat option"
  extentNode :: "nat option"
  extentOffset :: "nat option"
  cachedRange :: "range option"
  cachedInnerText :: "string option"

text \<open>The object as its constructor leaves it.\<close>

definition new_session :: "strategy \<Rightarrow> nat \<Rightarrow> session" where
  "new_session k i = \<lparr> kind = k, sid = i, doc = None, node = None,
     cachedCommandArray = None, stateChangeCallback = None, iframe = None,
     originalNode = None, baseNode = None, baseOffset = None, extentNode = None,
     extentOffset = None, cachedRange = None, cachedInnerText = None \<rparr>"

text \<open>What a method leaves behind: its result or the exception, the object, the world.\<close>

type_synonym outcome = "(error + jsval) \<times> session \<times> world"

subsection \<open>EditableBase\<close>

definition commands :: "(string \<times> string) list" where
  "commands = [(''bold'', ''state''), (''italic'', ''state''), (''underline'', ''state''),
               (''fontname'', ''value''), (''fontsize'', ''value''), (''forecolor'', ''value'')]"

text \<open>
  \<^verbatim>\<open>if(node && node.nodeType && ELEMENT_NODE == node.nodeType) return true;\<close>
  \<^verbatim>\<open>debug("checkNodeType() : Incorrect element type"); return false;\<close>
\<close>

definition checkNodeType :: "nat option \<Rightarrow> world \<Rightarrow> bool \<times> world" where
  "checkNodeType nd w =
     (case nd of
        Some a \<Rightarrow>
          if nodeType (nodes w a) \<noteq> 0 \<and> ELEMENT_NODE = nodeType (nodes w a) then (True, w)
          else (False, debug ''checkNodeType() : Incorrect element type'' w)
      | None \<Rightarrow> (False, debug ''checkNodeType() : Incorrect element type'' w))"

text \<open>\<^verbatim>\<open>this.stateChangeCallback = callBack;\<close>\<close>

definition setStateChangeCallBack :: "nat option \<Rightarrow> session \<Rightarrow> session" where
  "setStateChangeCallBack callBack s = s\<lparr> stateChangeCallback := callBack \<rparr>"

text \<open>\<^verbatim>\<open>commandArray[command] = v\<close>: an existing key keeps its place, a new one goes last.\<close>

fun assign :: "snapshot \<Rightarrow> string \<Rightarrow> jsval \<Rightarrow> snapshot" where
  "assign [] k v = [(k, v)]"
| "assign ((k', v') # rest) k v = (if k' = k then (k, v) # rest else (k', v') # assign rest k v)"

text \<open>\<^verbatim>\<open>command.search(/color/) >= 0\<close>: the word occurs somewhere in the command.\<close>

fun search :: "string \<Rightarrow> string \<Rightarrow> bool" where
  "search p [] = (p = [])"
| "search p (c # cs) = (take (length p) (c # cs) = p \<or> search p cs)"

text \<open>
  The body of the loop of \<^verbatim>\<open>getCommandState\<close>, once per entry of \<open>commands\<close>: query
  the state or the value, convert a colour, log the entry.
\<close>

fun getCommandState_loop ::
  "(string \<times> string) list \<Rightarrow> snapshot \<Rightarrow> world \<Rightarrow> (error + snapshot) \<times> world" where
  "getCommandState_loop [] commandArray w = (Inr commandArray, w)"
| "getCommandState_loop ((command, type) # rest) commandArray w =
     (let v = (if type = ''state'' then JBool (queryCommandState (rich w) command)
               else if type = ''value'' then of_cmdvalue (queryCommandValue (rich w) command)
               else JBool False)
      in if command \<noteq> [] \<and> search ''color'' command \<and> truthy v then
           (case convertColor v of
              Inl e \<Rightarrow> (Inl e, w)
            | Inr c \<Rightarrow>
                getCommandState_loop rest (assign (assign commandArray command v) command c)
                  (debug (''getCommandState() command='' @ command @ '' state/value='' @ toString c) w))
         else
           getCommandState_loop rest (assign commandArray command v)
             (debug (''getCommandState() command='' @ command @ '' state/value='' @ toString v) w))"

definition getCommandState :: "session \<Rightarrow> world \<Rightarrow> (error + cstate) \<times> world" where
  "getCommandState s w =
     (if doc s = None \<or> node s = None then (Inr CFalse, w)
      else case getCommandState_loop commands [] w of
             (Inl e, w') \<Rightarrow> (Inl e, w')
           | (Inr commandArray, w') \<Rightarrow> (Inr (CArray commandArray), w'))"

text \<open>
  \<^verbatim>\<open>this.commandArray\<close>: no line of the file assigns such a property (the fresh
  array is the local variable \<^verbatim>\<open>commandArray\<close>), so the read gives \<^verbatim>\<open>undefined\<close>.
  Indexing \<^verbatim>\<open>undefined\<close> raises.
\<close>

definition this_commandArray :: "session \<Rightarrow> snapshot option" where
  "this_commandArray s = None"

fun lookup :: "snapshot \<Rightarrow> string \<Rightarrow> jsval" where
  "lookup [] k = JUndef"
| "lookup ((k', v) # rest) k = (if k' = k then v else lookup rest k)"

fun index :: "snapshot option \<Rightarrow> string \<Rightarrow> error + jsval" where
  "index None i = Inl TypeError"
| "index (Some a) i = Inr (lookup a i)"

text \<open>
  \<^verbatim>\<open>for(var i in this.cachedCommandArray)\<close>
  \<^verbatim>\<open>  if(this.cachedCommandArray[i] != this.commandArray[i]) { debug(...); makeCallback = true; }\<close>
\<close>

fun checkCommandState_loop ::
  "env \<Rightarrow> session \<Rightarrow> snapshot \<Rightarrow> string list \<Rightarrow> bool \<Rightarrow> world \<Rightarrow> (error + bool) \<times> world" where
  "checkCommandState_loop E s cached [] makeCallback w = (Inr makeCallback, w)"
| "checkCommandState_loop E s cached (i # rest) makeCallback w =
     (case index (Some cached) i of
        Inl e \<Rightarrow> (Inl e, w)
      | Inr a \<Rightarrow>
          (case index (this_commandArray s) i of
             Inl e \<Rightarrow> (Inl e, w)
           | Inr b \<Rightarrow>
               if looseNeq E a b then
                 checkCommandState_loop E s cached rest True
                   (debug ''checkCommandState() - Command Change'' w)
               else checkCommandState_loop E s cached rest makeCallback w))"

definition checkCommandState :: "env \<Rightarrow> session \<Rightarrow> world \<Rightarrow> outcome" where
  "checkCommandState E s w =
     (case getCommandState s (debug ''checkCommandState()'' w) of
        (Inl e, w1) \<Rightarrow> (Inl e, s, w1)
      | (Inr commandArray, w1) \<Rightarrow>
          (case (case cachedCommandArray s of
                   Some (CArray cached) \<Rightarrow>
                     checkCommandState_loop E s cached (map fst cached) False w1
                 | _ \<Rightarrow> (Inr True, w1)) of
             (Inl e, w2) \<Rightarrow> (Inl e, s, w2)
           | (Inr makeCallback, w2) \<Rightarrow>
               (case stateChangeCallback s of
                  Some cb \<Rightarrow>
                    if makeCallback then
                      (Inr (JBool True), s\<lparr> cachedCommandArray := Some commandArray \<rparr>,
                       w2\<lparr> trace := trace w2 @ [StateChange cb commandArray] \<rparr>)
                    else (Inr (JBool True), s, w2)
                | None \<Rightarrow> (Inr (JBool True), s, w2))))"

subsection \<open>DOM helpers\<close>

text \<open>
  \<^verbatim>\<open>addEventListener\<close> ignores a registration that is already there;
  \<^verbatim>\<open>removeEventListener\<close> takes it away; \<^verbatim>\<open>attachEvent\<close> and \<^verbatim>\<open>detachEvent\<close> are
  the proprietary pair.
\<close>

definition addListener :: "'a \<Rightarrow> 'a list \<Rightarrow> 'a list" where
  "addListener l ls = (if l \<in> set ls then ls else ls @ [l])"

definition removeListener :: "'a \<Rightarrow> 'a list \<Rightarrow> 'a list" where
  "removeListener l ls = removeAll l ls"

definition attachEvent :: "'a \<Rightarrow> 'a list \<Rightarrow> 'a list" where
  "attachEvent l ls = ls @ [l]"

definition detachEvent :: "'a \<Rightarrow> 'a list \<Rightarrow> 'a list" where
  "detachEvent l ls = remove1 l ls"

text \<open>\<^verbatim>\<open>node.cloneNode(true)\<close>: a detached copy; listeners are not copied, and a detached node has no layout.\<close>

definition cloneNode :: "element \<Rightarrow> element" where
  "cloneNode n = n\<lparr> parentNode := None, listeners := [], attachedEvents := [], offsetHeight := 0 \<rparr>"

text \<open>\<^verbatim>\<open>document.createElement("iframe")\<close>\<close>

definition createFrame :: frame where
  "createFrame = \<lparr> fr_style = emptyStyle, fr_scrolling = [], fr_parentNode = None,
     fr_designMode = ''off'', fr_body = [], fr_links = [], fr_docListeners = [],
     fr_winListeners = [] \<rparr>"

text \<open>An assignment \<^verbatim>\<open>node.style.p = v\<close> on the node at an address.\<close>

definition setStyle :: "nat \<Rightarrow> (style \<Rightarrow> style) \<Rightarrow> world \<Rightarrow> world" where
  "setStyle a f w = w\<lparr> nodes := (nodes w)(a := (nodes w a)\<lparr> el_style := f (el_style (nodes w a)) \<rparr>) \<rparr>"

definition setParent :: "nat \<Rightarrow> parent option \<Rightarrow> world \<Rightarrow> world" where
  "setParent a p w = w\<lparr> nodes := (nodes w)(a := (nodes w a)\<lparr> parentNode := p \<rparr>) \<rparr>"

text \<open>\<^verbatim>\<open>n + "px"\<close>\<close>

definition px :: "nat \<Rightarrow> string" where
  "px n = toString (JNum (int n)) @ ''px''"

subsection \<open>EditableBase, continued: the methods a subclass overrides\<close>

definition base_editableOn :: "nat option \<Rightarrow> session \<Rightarrow> world \<Rightarrow> outcome" where
  "base_editableOn nd s w =
     (case checkNodeType nd w of
        (False, w0) \<Rightarrow> (Inr (JBool False), s, w0)
      | (True, w0) \<Rightarrow>
          (Inr (JBool False), s,
           debug ''editableOn() : Node was not made editable, no browser specific method overridden'' w0))"

definition base_editableOff :: "session \<Rightarrow> world \<Rightarrow> outcome" where
  "base_editableOff s w =
     (Inr (JBool False), s,
      debug ''editableOff() : Node was not made uneditable, no browser specific method overridden'' w)"

subsection \<open>EditableGecko\<close>

text \<open>The stub document written into the frame (the \<^verbatim>\<open>html\<close> of \<^verbatim>\<open>editableOn\<close>).\<close>

definition stubDocument :: "string \<Rightarrow> string" where
  "stubDocument styleText =
     ''<html>'' @
     ''<head>'' @
     ''<style type='' @ [CHR 0x27] @ ''text/css'' @ [CHR 0x27] @ ''>\<newline>'' @
     ''body,html {\<newline>'' @
     ''   background:transparent;\<newline>'' @
     ''   padding:0;\<newline>'' @
     ''   margin:0;\<newline>'' @
     ''}\<newline>'' @
     ''body {\<newline>'' @
     ''   top:0;\<newline>'' @
     ''   left:0;\<newline>'' @
     ''   right:0;\<newline>'' @
     ''   position:fixed;\<newline>'' @
     ''}\<newline>'' @
     ''body,div,dl,dt,dd,ul,ol,li,h1,h2,h3,h4,h5,h6,pre,form,fieldset,input,textarea,p,blockquote,th,td {\<newline>'' @
     ''   margin:0;\<newline>'' @
     ''   padding:0;\<newline>'' @
     ''}\<newline>'' @
     ''table {\<newline>'' @
     ''   border-collapse:collapse;\<newline>'' @
     ''   border-spacing:0;\<newline>'' @
     ''}\<newline>'' @
     ''fieldset,img {\<newline>'' @
     ''   border:0;\<newline>'' @
     ''}\<newline>'' @
     ''address,caption,cite,code,dfn,em,strong,th,var {\<newline>'' @
     ''   font-style:normal;\<newline>'' @
     ''   font-weight:normal;\<newline>'' @
     ''}\<newline>'' @
     ''ol,ul {\<newline>'' @
     ''   list-style:none;\<newline>'' @
     ''}\<newline>'' @
     ''caption,th {\<newline>'' @
     ''   text-align:left;\<newline>'' @
     ''}\<newline>'' @
     ''h1,h2,h3,h4,h5,h6 {\<newline>'' @
     ''   font-size:100%;\<newline>'' @
     ''   font-weight:normal;\<newline>'' @
     ''}\<newline>'' @
     ''q:before,q:after {\<newline>'' @
     ''   content:'' @ [CHR 0x27] @ [CHR 0x27] @ '';\<newline>'' @
     ''}\<newline>'' @
     ''abbr,acronym {\<newline>'' @
     ''   border:0;\<newline>'' @
     ''}\<newline>'' @
     styleText @
     ''</style>'' @
     ''</head>'' @
     ''<body><div></div></body>'' @
     ''</html>''"

text \<open>
  \<^verbatim>\<open>update\<close>: \<^verbatim>\<open>this.checkCommandState();\<close>
  \<^verbatim>\<open>this.iframe.style.height = this.doc.body.offsetHeight + "px";\<close>
\<close>

definition gecko_update :: "env \<Rightarrow> session \<Rightarrow> world \<Rightarrow> outcome" where
  "gecko_update E s w =
     (case checkCommandState E s w of
        (Inl e, s1, w1) \<Rightarrow> (Inl e, s1, w1)
      | (Inr _, s1, w1) \<Rightarrow>
          (case iframe s1 of
             None \<Rightarrow> (Inl TypeError, s1, w1)
           | Some f \<Rightarrow>
               (case doc s1 of
                  None \<Rightarrow> (Inl TypeError, s1, w1)
                | Some d \<Rightarrow>
                    (Inr JUndef,
                     s1\<lparr> iframe := Some (f\<lparr> fr_style := (fr_style f)\<lparr> st_height := px (bodyOffsetHeight w1) \<rparr> \<rparr>) \<rparr>,
                     w1))))"

text \<open>The frame of \<^verbatim>\<open>editableOn\<close>, lined up with the node (source lines 243 to 259).\<close>

definition gecko_frameFor :: "element \<Rightarrow> frame" where
  "gecko_frameFor n =
     (let ns = el_style n; fs = fr_style createFrame
      in createFrame
           \<lparr> fr_style := fs
               \<lparr> st_width := (if st_width ns \<noteq> [] then st_width ns else ''100%''),
                 st_height := (if st_height ns \<noteq> [] then st_height ns else px (offsetHeight n)),
                 st_top := (if st_top ns \<noteq> [] then st_top ns else st_top fs),
                 st_left := (if st_left ns \<noteq> [] then st_left ns else st_left fs),
                 st_position := (if st_position ns \<noteq> [] then st_position ns else st_position fs),
                 st_border := ''none'',
                 st_lineHeight := ''0'',
                 st_verticalAlign := ''bottom'' \<rparr>,
             fr_scrolling := ''no'' \<rparr>)"

text \<open>
  \<^verbatim>\<open>editableOn\<close> is long; it is taken in the three stretches its own comments
  mark, run one after the other.  First, source lines 243 to 264: build the
  frame, take \<^verbatim>\<open>clone\<close> and \<^verbatim>\<open>this.originalNode\<close> (the next two free addresses of
  the store), and put the frame in the node's place.  \<^verbatim>\<open>node.parentNode.replaceChild\<close>
  raises on a node without a parent.  The result is the address of \<^verbatim>\<open>clone\<close>.
\<close>

definition gecko_swapIn :: "nat \<Rightarrow> session \<Rightarrow> world \<Rightarrow> (error + nat) \<times> session \<times> world" where
  "gecko_swapIn a s w =
     (let n = nodes w a;
          s1 = s\<lparr> iframe := Some (gecko_frameFor n) \<rparr>;
          w1 = (if st_position (el_style n) \<noteq> []
                then setStyle a (\<lambda>st. st\<lparr> st_position := ''static'' \<rparr>) w else w);
          c = next_addr w1;
          w2 = w1\<lparr> nodes := (nodes w1)(c := cloneNode (nodes w1 a)), next_addr := Suc c \<rparr>;
          orig = next_addr w2;
          w3 = w2\<lparr> nodes := (nodes w2)(orig := cloneNode (nodes w2 a)), next_addr := Suc orig \<rparr>;
          s2 = s1\<lparr> originalNode := Some orig \<rparr>
      in case parentNode (nodes w3 a) of
           None \<Rightarrow> (Inl TypeError, s2, w3)
         | Some p \<Rightarrow>
             (Inr c,
              s2\<lparr> iframe := Some ((gecko_frameFor n)\<lparr> fr_parentNode := Some p \<rparr>) \<rparr>,
              setParent a None w3))"

text \<open>
  Second, source lines 267 to 352: write the stub document, append \<^verbatim>\<open>clone\<close> to
  its body, link the style sheets (last one first), switch design mode on, set
  \<^verbatim>\<open>this.doc\<close> and register the three listeners.
  \<^verbatim>\<open>document.getElementsByTagName('style')[0].innerHTML\<close> raises in a document
  without a style element.
\<close>

definition gecko_fillFrame :: "nat \<Rightarrow> session \<Rightarrow> world \<Rightarrow> outcome" where
  "gecko_fillFrame c s w =
     (case iframe s of
        None \<Rightarrow> (Inl TypeError, s, w)
      | Some f \<Rightarrow>
          (let w1 = w\<lparr> trace := trace w @
                      [DocOpen (''text/html; charset='' @ [CHR 0x22] @ ''UTF-8'' @ [CHR 0x22])] \<rparr>
           in case styleElements w1 of
                [] \<Rightarrow> (Inl TypeError, s, w1)
              | innerHTML # _ \<Rightarrow>
                  (let styleText = ''\<newline>\<newline>'' @ innerHTML @ ''\<newline>\<newline>'';
                       w2 = w1\<lparr> trace := trace w1 @ [DocWrite (stubDocument styleText), DocClose] \<rparr>;
                       w3 = setParent c (Some FrameBody) w2;
                       f1 = f\<lparr> fr_body := fr_body f @ [c] \<rparr>;
                       s1 = s\<lparr> iframe := Some f1, node := Some c \<rparr>;
                       f2 = f1\<lparr> fr_links := fr_links f1 @
                                  map (\<lambda>href. (''stylesheet'', ''text/css'', href)) (rev (styleSheets w3)),
                                fr_designMode := ''on'' \<rparr>;
                       s2 = s1\<lparr> iframe := Some f2, doc := Some FrameDocument \<rparr>;
                       w4 = w3\<lparr> EditableGeckoRef := Some (sid s2) \<rparr>;
                       f3 = f2\<lparr> fr_docListeners :=
                                  addListener (''mouseup'', mozSignalIframeChange, True)
                                    (addListener (''keyup'', mozSignalIframeChange, True) (fr_docListeners f2)),
                                fr_winListeners :=
                                  addListener (''resize'', mozSignalIframeChange, True) (fr_winListeners f2) \<rparr>
                   in (Inr JUndef, s2\<lparr> iframe := Some f3 \<rparr>, w4))))"

text \<open>
  Third, \<^verbatim>\<open>this.update()\<close>.  The method has no \<^verbatim>\<open>return\<close> after the node check,
  so a call that gets through gives \<^verbatim>\<open>undefined\<close>.
\<close>

definition gecko_editableOn :: "env \<Rightarrow> nat option \<Rightarrow> session \<Rightarrow> world \<Rightarrow> outcome" where
  "gecko_editableOn E nd s w =
     (case (checkNodeType nd w, nd) of
        ((True, w0), Some a) \<Rightarrow>
          (case gecko_swapIn a s w0 of
             (Inl e, s1, w1) \<Rightarrow> (Inl e, s1, w1)
           | (Inr c, s1, w1) \<Rightarrow>
               (case gecko_fillFrame c s1 w1 of
                  (Inl e, s2, w2) \<Rightarrow> (Inl e, s2, w2)
                | (Inr _, s2, w2) \<Rightarrow>
                    (case gecko_update E s2 w2 of
                       (Inl e, s3, w3) \<Rightarrow> (Inl e, s3, w3)
                     | (Inr _, s3, w3) \<Rightarrow> (Inr JUndef, s3, w3))))
      | ((_, w0), _) \<Rightarrow> (Inr (JBool False), s, w0))"

text \<open>
  \<^verbatim>\<open>editableOff\<close>: everything happens under \<^verbatim>\<open>if(this.iframe)\<close>, and no branch
  returns a value.  The five style assignments run in the order of the source.
\<close>

definition gecko_editableOff :: "session \<Rightarrow> world \<Rightarrow> outcome" where
  "gecko_editableOff s w =
     (case iframe s of
        None \<Rightarrow> (Inr JUndef, s, w)
      | Some f \<Rightarrow>
          (let f1 = f\<lparr> fr_docListeners :=
                          removeListener (''mouseup'', mozSignalIframeChange, True)
                            (removeListener (''keyup'', mozSignalIframeChange, True) (fr_docListeners f)),
                        fr_winListeners :=
                          removeListener (''resize'', mozSignalIframeChange, True) (fr_winListeners f),
                        fr_designMode := ''off'' \<rparr>;
               s1 = s\<lparr> iframe := Some f1 \<rparr>
           in case node s1 of
                None \<Rightarrow> (Inl TypeError, s1, w)
              | Some a \<Rightarrow>
                  (case originalNode s1 of
                     None \<Rightarrow> (Inl TypeError, s1, w)
                   | Some orig \<Rightarrow>
                       (let w1 = setStyle a (\<lambda>st. st\<lparr> st_width :=
                                   (if st_width (el_style (nodes w orig)) \<noteq> []
                                    then st_width (fr_style f1)
                                    else st_width (el_style (nodes w orig))) \<rparr>) w;
                            w2 = setStyle a (\<lambda>st. st\<lparr> st_height :=
                                   (if st_height (el_style (nodes w1 orig)) \<noteq> []
                                    then st_height (fr_style f1)
                                    else st_height (el_style (nodes w1 orig))) \<rparr>) w1;
                            w3 = setStyle a (\<lambda>st. st\<lparr> st_position := st_position (fr_style f1) \<rparr>) w2;
                            w4 = setStyle a (\<lambda>st. st\<lparr> st_top := st_top (fr_style f1) \<rparr>) w3;
                            w5 = setStyle a (\<lambda>st. st\<lparr> st_left := st_left (fr_style f1) \<rparr>) w4
                        in case fr_parentNode f1 of
                             None \<Rightarrow> (Inl TypeError, s1, w5)
                           | Some p \<Rightarrow>
                               (Inr JUndef,
                                s1\<lparr> iframe := None, node := None, doc := None \<rparr>,
                                setParent a (Some p) w5)))))"

text \<open>\<^verbatim>\<open>if(this.iframe) this.iframe.contentWindow.focus();\<close>\<close>

definition gecko_preExecCommand :: "session \<Rightarrow> world \<Rightarrow> outcome" where
  "gecko_preExecCommand s w =
     (case iframe s of
        None \<Rightarrow> (Inr JUndef, s, w)
      | Some f \<Rightarrow> (Inr JUndef, s, w\<lparr> trace := trace w @ [WindowFocus] \<rparr>))"

definition gecko_postExecCommand :: "env \<Rightarrow> session \<Rightarrow> world \<Rightarrow> outcome" where
  "gecko_postExecCommand E s w = gecko_update E s w"

subsection \<open>EditableWebkit\<close>

text \<open>
  \<^verbatim>\<open>editableOn\<close>: after the node check, the node itself is made editable and gets
  the two listeners.  The method ends without a \<^verbatim>\<open>return\<close>.
\<close>

definition webkit_editableOn :: "nat option \<Rightarrow> session \<Rightarrow> world \<Rightarrow> outcome" where
  "webkit_editableOn nd s w =
     (case (checkNodeType nd w, nd) of
        ((True, w0), Some a) \<Rightarrow>
          (let s1 = s\<lparr> node := Some a \<rparr>;
               n = nodes w0 a;
               n1 = n\<lparr> contentEditable := JBool True \<rparr>;
               n2 = n1\<lparr> listeners := addListener (''keypress'', webkitCacheSelection, True) (listeners n1) \<rparr>;
               n3 = n2\<lparr> listeners := addListener (''mouseup'', webkitCacheSelection, True) (listeners n2) \<rparr>;
               s2 = s1\<lparr> doc := Some HostingDocument \<rparr>
           in (Inr JUndef, s2,
               w0\<lparr> nodes := (nodes w0)(a := n3), editableWebkitRef := Some (sid s2) \<rparr>))
      | ((_, w0), _) \<Rightarrow> (Inr (JBool False), s, w0))"

text \<open>
  \<^verbatim>\<open>editableOff\<close> starts with \<^verbatim>\<open>this.node.removeEventListener(...)\<close>, with no test
  of \<^verbatim>\<open>this.node\<close>.
\<close>

definition webkit_editableOff :: "session \<Rightarrow> world \<Rightarrow> outcome" where
  "webkit_editableOff s w =
     (case node s of
        None \<Rightarrow> (Inl TypeError, s, w)
      | Some a \<Rightarrow>
          (let n = nodes w a;
               n1 = n\<lparr> listeners := removeListener (''keypress'', webkitCacheSelection, True) (listeners n) \<rparr>;
               n2 = n1\<lparr> listeners := removeListener (''mouseup'', webkitCacheSelection, True) (listeners n1) \<rparr>;
               n3 = n2\<lparr> contentEditable := JBool False \<rparr>
           in (Inr JUndef, s\<lparr> node := None, doc := None \<rparr>,
               w\<lparr> nodes := (nodes w)(a := n3) \<rparr>)))"

definition webkit_cacheSelection :: "session \<Rightarrow> world \<Rightarrow> outcome" where
  "webkit_cacheSelection s w =
     (let sel = windowSelection w
      in (Inr JUndef,
          s\<lparr> baseNode := sel_baseNode sel, baseOffset := sel_baseOffset sel,
             extentNode := sel_extentNode sel, extentOffset := sel_extentOffset sel \<rparr>,
          w))"

definition webkit_highlightSelection :: "session \<Rightarrow> world \<Rightarrow> outcome" where
  "webkit_highlightSelection s w =
     (Inr JUndef, s,
      w\<lparr> windowSelection :=
            \<lparr> sel_baseNode = baseNode s, sel_baseOffset = baseOffset s,
              sel_extentNode = extentNode s, sel_extentOffset = extentOffset s \<rparr>,
          trace := trace w @ [SetBaseAndExtent (baseNode s) (baseOffset s) (extentNode s) (extentOffset s)] \<rparr>)"

definition webkit_update :: "env \<Rightarrow> session \<Rightarrow> world \<Rightarrow> outcome" where
  "webkit_update E s w =
     (case webkit_cacheSelection s w of
        (Inl e, s1, w1) \<Rightarrow> (Inl e, s1, w1)
      | (Inr _, s1, w1) \<Rightarrow>
          (case checkCommandState E s1 w1 of
             (Inl e, s2, w2) \<Rightarrow> (Inl e, s2, w2)
           | (Inr _, s2, w2) \<Rightarrow> (Inr JUndef, s2, w2)))"

definition webkit_preExecCommand :: "session \<Rightarrow> world \<Rightarrow> outcome" where
  "webkit_preExecCommand s w =
     (case webkit_highlightSelection s w of
        (Inl e, s1, w1) \<Rightarrow> (Inl e, s1, w1)
      | (Inr _, s1, w1) \<Rightarrow> (Inr JUndef, s1, w1))"

definition webkit_postExecCommand :: "env \<Rightarrow> session \<Rightarrow> world \<Rightarrow> outcome" where
  "webkit_postExecCommand E s w =
     (case webkit_update E s w of
        (Inl e, s1, w1) \<Rightarrow> (Inl e, s1, w1)
      | (Inr _, s1, w1) \<Rightarrow> (Inr JUndef, s1, w1))"

subsection \<open>EditableIE\<close>

definition ie_editableOn :: "nat option \<Rightarrow> session \<Rightarrow> world \<Rightarrow> outcome" where
  "ie_editableOn nd s w =
     (case (checkNodeType nd w, nd) of
        ((True, w0), Some a) \<Rightarrow>
          (let s1 = s\<lparr> node := Some a \<rparr>;
               n = nodes w0 a;
               n1 = n\<lparr> contentEditable := JBool True \<rparr>;
               n2 = n1\<lparr> attachedEvents := attachEvent (''onkeypress'', iECacheSelection) (attachedEvents n1) \<rparr>;
               n3 = n2\<lparr> attachedEvents := attachEvent (''onmouseup'', iECacheSelection) (attachedEvents n2) \<rparr>;
               s2 = s1\<lparr> doc := Some HostingDocument \<rparr>
           in (Inr JUndef, s2,
               w0\<lparr> nodes := (nodes w0)(a := n3), editableIERef := Some (sid s2) \<rparr>))
      | ((_, w0), _) \<Rightarrow> (Inr (JBool False), s, w0))"

definition ie_editableOff :: "session \<Rightarrow> world \<Rightarrow> outcome" where
  "ie_editableOff s w =
     (case node s of
        None \<Rightarrow> (Inl TypeError, s, w)
      | Some a \<Rightarrow>
          (let n = nodes w a;
               n1 = n\<lparr> attachedEvents := detachEvent (''onkeypress'', iECacheSelection) (attachedEvents n) \<rparr>;
               n2 = n1\<lparr> attachedEvents := detachEvent (''onmouseup'', iECacheSelection) (attachedEvents n1) \<rparr>;
               n3 = n2\<lparr> contentEditable := JBool False \<rparr>
           in (Inr JUndef, s\<lparr> node := None, doc := None \<rparr>,
               w\<lparr> nodes := (nodes w)(a := n3) \<rparr>)))"

text \<open>
  \<^verbatim>\<open>if(document.selection) {\<close>
  \<^verbatim>\<open>  this.cachedRange = this.doc.selection.createRange();\<close>
  \<^verbatim>\<open>  this.cachedInnerText = this.node.innerText; }\<close>
\<close>

definition ie_cacheSelection :: "session \<Rightarrow> world \<Rightarrow> outcome" where
  "ie_cacheSelection s w =
     (case documentSelection w of
        None \<Rightarrow> (Inr JUndef, s, w)
      | Some r \<Rightarrow>
          (case doc s of
             None \<Rightarrow> (Inl TypeError, s, w)
           | Some d \<Rightarrow>
               (let s1 = s\<lparr> cachedRange := Some r \<rparr>
                in case node s1 of
                     None \<Rightarrow> (Inl TypeError, s1, w)
                   | Some a \<Rightarrow>
                       (Inr JUndef, s1\<lparr> cachedInnerText := Some (innerText (nodes w a)) \<rparr>, w))))"

text \<open>
  \<^verbatim>\<open>if(this.cachedInnerText != this.node.innerText && this.cachedRange\<close>
  \<^verbatim>\<open>   && this.cachedRange.text.length >= 0)\<close>
  \<^verbatim>\<open>  this.cachedRange.moveStart("character", this.cachedRange.text.length);\<close>
  \<^verbatim>\<open>if(this.cachedRange) this.cachedRange.select();\<close>
  The first operand reads \<^verbatim>\<open>this.node.innerText\<close> whatever the rest is.  A cached
  text of \<^verbatim>\<open>null\<close> differs from every string.
\<close>

definition ie_highlightSelection :: "session \<Rightarrow> world \<Rightarrow> outcome" where
  "ie_highlightSelection s w =
     (case node s of
        None \<Rightarrow> (Inl TypeError, s, w)
      | Some a \<Rightarrow>
          (let s1 = (case cachedRange s of
                       Some r \<Rightarrow>
                         if cachedInnerText s \<noteq> Some (innerText (nodes w a)) \<and> 0 \<le> length (rg_text r)
                         then s\<lparr> cachedRange := Some (moveStart (length (rg_text r)) r) \<rparr>
                         else s
                     | None \<Rightarrow> s)
           in case cachedRange s1 of
                Some r \<Rightarrow>
                  (Inr JUndef, s1,
                   w\<lparr> documentSelection := Some r, trace := trace w @ [RangeSelect r] \<rparr>)
              | None \<Rightarrow> (Inr JUndef, s1, w)))"

definition ie_update :: "env \<Rightarrow> session \<Rightarrow> world \<Rightarrow> outcome" where
  "ie_update E s w =
     (case ie_cacheSelection s w of
        (Inl e, s1, w1) \<Rightarrow> (Inl e, s1, w1)
      | (Inr _, s1, w1) \<Rightarrow>
          (case checkCommandState E s1 w1 of
             (Inl e, s2, w2) \<Rightarrow> (Inl e, s2, w2)
           | (Inr _, s2, w2) \<Rightarrow> (Inr JUndef, s2, w2)))"

definition ie_preExecCommand :: "session \<Rightarrow> world \<Rightarrow> outcome" where
  "ie_preExecCommand s w =
     (case ie_highlightSelection s w of
        (Inl e, s1, w1) \<Rightarrow> (Inl e, s1, w1)
      | (Inr _, s1, w1) \<Rightarrow> (Inr JUndef, s1, w1))"

definition ie_postExecCommand :: "env \<Rightarrow> session \<Rightarrow> world \<Rightarrow> outcome" where
  "ie_postExecCommand E s w =
     (case ie_update E s w of
        (Inl e, s1, w1) \<Rightarrow> (Inl e, s1, w1)
      | (Inr _, s1, w1) \<Rightarrow> (Inr JUndef, s1, w1))"

subsection \<open>Method dispatch and execCommand\<close>

text \<open>A call \<^verbatim>\<open>this.m(...)\<close> runs the method of the object's own class.\<close>

definition editableOn :: "env \<Rightarrow> nat option \<Rightarrow> session \<Rightarrow> world \<Rightarrow> outcome" where
  "editableOn E nd s w =
     (case kind s of
        Base \<Rightarrow> base_editableOn nd s w
      | Gecko \<Rightarrow> gecko_editableOn E nd s w
      | Webkit \<Rightarrow> webkit_editableOn nd s w
      | Trident \<Rightarrow> ie_editableOn nd s w)"

definition editableOff :: "session \<Rightarrow> world \<Rightarrow> outcome" where
  "editableOff s w =
     (case kind s of
        Base \<Rightarrow> base_editableOff s w
      | Gecko \<Rightarrow> gecko_editableOff s w
      | Webkit \<Rightarrow> webkit_editableOff s w
      | Trident \<Rightarrow> ie_editableOff s w)"

definition preExecCommand :: "session \<Rightarrow> world \<Rightarrow> outcome" where
  "preExecCommand s w =
     (case kind s of
        Base \<Rightarrow> (Inr JUndef, s, w)
      | Gecko \<Rightarrow> gecko_preExecCommand s w
      | Webkit \<Rightarrow> webkit_preExecCommand s w
      | Trident \<Rightarrow> ie_preExecCommand s w)"

definition postExecCommand :: "env \<Rightarrow> session \<Rightarrow> world \<Rightarrow> outcome" where
  "postExecCommand E s w =
     (case kind s of
        Base \<Rightarrow> (Inr JUndef, s, w)
      | Gecko \<Rightarrow> gecko_postExecCommand E s w
      | Webkit \<Rightarrow> webkit_postExecCommand E s w
      | Trident \<Rightarrow> ie_postExecCommand E s w)"

text \<open>
  \<^verbatim>\<open>execCommand(command)\<close>:
  \<^verbatim>\<open>if(!this.doc) return false;\<close>
  \<^verbatim>\<open>this.preExecCommand();\<close>
  \<^verbatim>\<open>var ret = this.doc.execCommand(command, false, false);\<close>
  \<^verbatim>\<open>this.postExecCommand()\<close>
  \<^verbatim>\<open>this.checkCommandState();\<close>
  \<^verbatim>\<open>return ret;\<close>
\<close>

definition execCommand :: "env \<Rightarrow> string \<Rightarrow> session \<Rightarrow> world \<Rightarrow> outcome" where
  "execCommand E command s w =
     (case doc s of
        None \<Rightarrow> (Inr (JBool False), s, w)
      | Some d \<Rightarrow>
          (case preExecCommand s w of
             (Inl e, s1, w1) \<Rightarrow> (Inl e, s1, w1)
           | (Inr _, s1, w1) \<Rightarrow>
               (let (ret, h) = docExecCommand E command (JBool False) (JBool False) (rich w1);
                    w2 = w1\<lparr> rich := h,
                             trace := trace w1 @ [HostExecCommand command (JBool False) (JBool False)] \<rparr>
                in case postExecCommand E s1 w2 of
                     (Inl e, s3, w3) \<Rightarrow> (Inl e, s3, w3)
                   | (Inr _, s3, w3) \<Rightarrow>
                       (case checkCommandState E s3 w3 of
                          (Inl e, s4, w4) \<Rightarrow> (Inl e, s4, w4)
                        | (Inr _, s4, w4) \<Rightarrow> (Inr (JBool ret), s4, w4)))))"

section \<open>Observations\<close>

text \<open>An element-kind node: a node object whose \<^verbatim>\<open>nodeType\<close> is \<^verbatim>\<open>ELEMENT_NODE\<close>.\<close>

definition element_kind :: "nat option \<Rightarrow> world \<Rightarrow> bool" where
  "element_kind nd w = (case nd of Some a \<Rightarrow> nodeType (nodes w a) = ELEMENT_NODE | None \<Rightarrow> False)"

text \<open>The three parts of an outcome.\<close>

definition result_of :: "outcome \<Rightarrow> error + jsval" where
  "result_of out = fst out"

definition session_of :: "outcome \<Rightarrow> session" where
  "session_of out = fst (snd out)"

definition world_of :: "outcome \<Rightarrow> world" where
  "world_of out = snd (snd out)"

text \<open>The inline style of the session's frame (unset when there is no frame).\<close>

definition iframe_style :: "session \<Rightarrow> style" where
  "iframe_style s = (case iframe s of Some f \<Rightarrow> fr_style f | None \<Rightarrow> emptyStyle)"

text \<open>The calls of the change callback recorded in a trace, oldest first.\<close>

fun fired :: "event list \<Rightarrow> (nat \<times> cstate) list" where
  "fired [] = []"
| "fired (StateChange cb c # es) = (cb, c) # fired es"
| "fired (_ # es) = fired es"

text \<open>The snapshot a call of \<^verbatim>\<open>checkCommandState\<close> captures in a given state.\<close>

definition captured :: "session \<Rightarrow> world \<Rightarrow> error + cstate" where
  "captured s w = fst (getCommandState s (debug ''checkCommandState()'' w))"

section \<open>A sample page\<close>

text \<open>
  A page to run the code on.  Address 0 is the page's body, address 1 an element
  under it with an inline height of 50px and no inline width, address 2 a text
  node.  The document has one style element and one linked style sheet, and
  reports a red foreground colour in the notation of the Gecko engine.  The
  frame's document body is rendered 80 pixels high.
\<close>

definition sample_body :: element where
  "sample_body = \<lparr> nodeType = ELEMENT_NODE, el_style = emptyStyle, offsetHeight = 600,
     parentNode = None, contentEditable = JStr ''inherit'', listeners = [],
     attachedEvents = [], innerText = ''hello world'' \<rparr>"

definition sample_element :: element where
  "sample_element = \<lparr> nodeType = ELEMENT_NODE,
     el_style = emptyStyle\<lparr> st_height := ''50px'' \<rparr>, offsetHeight = 50,
     parentNode = Some (PageNode 0), contentEditable = JStr ''inherit'', listeners = [],
     attachedEvents = [], innerText = ''hello world'' \<rparr>"

definition sample_text :: element where
  "sample_text = \<lparr> nodeType = TEXT_NODE, el_style = emptyStyle, offsetHeight = 0,
     parentNode = Some (PageNode 1), contentEditable = JUndef, listeners = [],
     attachedEvents = [], innerText = [] \<rparr>"

definition sample_host :: host where
  "sample_host = \<lparr> queryCommandState = (\<lambda>c. False),
     queryCommandValue = (\<lambda>c. if c = ''forecolor'' then VStr ''rgb(255, 0, 0)''
                               else if c = ''fontsize'' then VStr ''3'' else VStr ''Arial'') \<rparr>"

definition sample_world :: world where
  "sample_world = \<lparr> nodes = (\<lambda>a. if a = 1 then sample_element else if a = 2 then sample_text else sample_body),
     next_addr = 10, styleElements = [''p { margin:0 }''], styleSheets = [JStr ''main.css''],
     bodyOffsetHeight = 80, rich = sample_host,
     windowSelection = \<lparr> sel_baseNode = Some 2, sel_baseOffset = Some 0,
                          sel_extentNode = Some 2, sel_extentOffset = Some 5 \<rparr>,
     documentSelection = Some \<lparr> rg_start = 0, rg_text = ''hello'' \<rparr>,
     EditableGeckoRef = None, editableWebkitRef = None, editableIERef = None, trace = [] \<rparr>"

text \<open>
  A host on which \<^verbatim>\<open>bold\<close> succeeds and toggles its state and every other command
  fails; values are compared by identity.
\<close>

definition sample_env :: env where
  "sample_env = \<lparr> looseNeq = (\<lambda>a b. a \<noteq> b),
     docExecCommand = (\<lambda>c showUI v h.
        if c = ''bold'' then (True, h\<lparr> queryCommandState := (queryCommandState h)(c := \<not> queryCommandState h c) \<rparr>)
        else (False, h)) \<rparr>"

text \<open>What the sample host reports, as \<^verbatim>\<open>getCommandState\<close> captures it.\<close>

definition sample_snapshot :: cstate where
  "sample_snapshot = CArray [(''bold'', JBool False), (''italic'', JBool False),
     (''underline'', JBool False), (''fontname'', JStr ''Arial''), (''fontsize'', JStr ''3''),
     (''forecolor'', JStr ''#ff0000'')]"

text \<open>
  A Webkit session with the change callback 7 registered, activated on the
  element, and two checks of the command state in a row.
\<close>

definition webkit_on :: outcome where
  "webkit_on = editableOn sample_env (Some 1)
     (setStateChangeCallBack (Some 7) (new_session Webkit 0)) sample_world"

definition webkit_check1 :: outcome where
  "webkit_check1 = checkCommandState sample_env (session_of webkit_on) (world_of webkit_on)"

definition webkit_check2 :: outcome where
  "webkit_check2 = checkCommandState sample_env (session_of webkit_check1) (world_of webkit_check1)"

text \<open>The same session, asked to run \<^verbatim>\<open>bold\<close> right after its activation.\<close>

definition webkit_bold :: outcome where
  "webkit_bold = execCommand sample_env ''bold'' (session_of webkit_on) (world_of webkit_on)"

text \<open>A Gecko session activated on the element, then deactivated, then deactivated again.\<close>

definition gecko_on :: outcome where
  "gecko_on = editableOn sample_env (Some 1) (new_session Gecko 0) sample_world"

definition gecko_off :: outcome where
  "gecko_off = editableOff (session_of gecko_on) (world_of gecko_on)"

definition gecko_off_again :: outcome where
  "gecko_off_again = editableOff (session_of gecko_off) (world_of gecko_off)"

text \<open>
  A Trident session activated on the element, whose cached range spans the five
  characters of \<^verbatim>\<open>hello\<close> and whose cached text is \<^verbatim>\<open>hello\<close>, while the node's
  text is by now \<^verbatim>\<open>hello world\<close>.
\<close>

definition ie_on :: outcome where
  "ie_on = editableOn sample_env (Some 1) (new_session Trident 0) sample_world"

definition ie_drifted :: session where
  "ie_drifted = (session_of ie_on)
     \<lparr> cachedRange := Some \<lparr> rg_start = 0, rg_text = ''hello'' \<rparr>,
       cachedInnerText := Some ''hello'' \<rparr>"

text \<open>A Webkit session activated on the element with no change callback registered.\<close>

definition webkit_quiet :: outcome where
  "webkit_quiet = editableOn sample_env (Some 1) (new_session Webkit 0) sample_world"

section \<open>Basic facts\<close>

lemmas outcome_defs = result_of_def session_of_def world_of_def

lemma error_is_TypeError: "(e :: error) = TypeError"
  by (cases e) simp

lemma fired_append: "fired (xs @ ys) = fired xs @ fired ys"
  by (induction xs rule: fired.induct) simp_all

lemma debug_fields [simp]:
  "rich (debug m w) = rich w" "nodes (debug m w) = nodes w"
  "trace (debug m w) = trace w @ [Debug m]"
  by (simp_all add: debug_def)

subsection \<open>Colours\<close>

lemma digitChar_0: "digitChar 0 = CHR ''0''"
  by (simp add: digitChar_def)

lemma digitChar_lower: "n < 16 \<Longrightarrow> digitChar n \<in> set ''0123456789abcdef''"
  unfolding digitChar_def by (rule nth_mem) simp

lemma hex_byte: "d < 256 \<Longrightarrow> hex d = [digitChar (d div 16), digitChar (d mod 16)]"
proof (cases "d < 16")
  case True
  then show ?thesis by (simp add: hex_def numToString.simps [of 16 d] digitChar_0)
next
  case False
  assume "d < 256"
  then have "d div 16 < 16" by (simp add: div_less_iff_less_mult)
  then have "numToString 16 (d div 16) = [digitChar (d div 16)]"
    by (simp add: numToString.simps [of 16 "d div 16"])
  with False show ?thesis by (simp add: hex_def numToString.simps [of 16 d])
qed

lemma hex_byte_chars:
  assumes "d < 256"
  shows "length (hex d) = 2 \<and> set (hex d) \<subseteq> set ''0123456789abcdef''"
proof -
  have hi: "d div 16 < 16" using assms by (simp add: div_less_iff_less_mult)
  have lo: "d mod 16 < 16" by simp
  show ?thesis
    using digitChar_lower [OF hi] digitChar_lower [OF lo] by (simp add: hex_byte [OF assms])
qed

text \<open>The bytes that \<^verbatim>\<open>&\<close> and \<^verbatim>\<open>>>\<close> take out of a number.\<close>

lemma int_bits_window:
  assumes "m + 8 \<le> 32"
  shows "take_bit 8 (drop_bit m (take_bit 32 (v :: int))) = take_bit 8 (drop_bit m v)"
  using assms by (intro bit_eqI) (auto simp: bit_simps)

lemma byte_of_shift:
  assumes "m + 8 \<le> 32"
  shows "unat (signed_drop_bit m (toInt32 v) AND 0xFF) = nat (v div 2 ^ m mod 256)"
proof -
  have m: "(0xFF :: 32 word) = mask 8" by (simp add: mask_eq_exp_minus_1)
  have "signed_drop_bit m (toInt32 v) AND mask 8 = take_bit 8 (drop_bit m (toInt32 v))"
    using assms
    by (intro bit_eqI) (auto simp: bit_simps bit_signed_drop_bit_iff)
  then have "unat (signed_drop_bit m (toInt32 v) AND 0xFF) = unat (take_bit 8 (drop_bit m (toInt32 v)))"
    by (simp add: m)
  also have "\<dots> = nat (uint (take_bit 8 (drop_bit m (toInt32 v))))"
    by (rule unat_eq_nat_uint)
  also have "uint (take_bit 8 (drop_bit m (toInt32 v))) = take_bit 8 (drop_bit m (take_bit 32 v))"
    by (simp add: toInt32_def unsigned_take_bit_eq unsigned_drop_bit_eq uint_word_of_int_eq)
  also have "\<dots> = take_bit 8 (drop_bit m v)"
    by (rule int_bits_window [OF assms])
  also have "\<dots> = v div 2 ^ m mod 256"
    by (simp add: take_bit_eq_mod drop_bit_eq_div)
  finally show ?thesis .
qed

lemma second_byte: "unat (signed_drop_bit 8 (toInt32 v) AND 0xFF) = nat (v div 256 mod 256)"
proof -
  have le: "(8 :: nat) + 8 \<le> 32" by simp
  have p: "(2 :: int) ^ 8 = 256" by simp
  show ?thesis using byte_of_shift [OF le, of v] unfolding p .
qed

lemma third_byte: "unat (signed_drop_bit 16 (toInt32 v) AND 0xFF) = nat (v div 65536 mod 256)"
proof -
  have le: "(16 :: nat) + 8 \<le> 32" by simp
  have p: "(2 :: int) ^ 16 = 65536" by simp
  show ?thesis using byte_of_shift [OF le, of v] unfolding p .
qed

lemma first_byte: "unat (toInt32 v AND 0xFF) = nat (v mod 256)"
proof -
  have le: "(0 :: nat) + 8 \<le> 32" by simp
  have p: "signed_drop_bit 0 (toInt32 v) = toInt32 v" by simp
  have q: "v div 2 ^ 0 = v" by simp
  show ?thesis using byte_of_shift [OF le, of v] unfolding p q .
qed

lemma convertColor_number:
  "convertColor (JNum v) =
     Inr (JStr (''#'' @ hex (nat (v mod 256)) @ hex (nat (v div 256 mod 256))
                       @ hex (nat (v div 65536 mod 256))))"
  unfolding convertColor.simps Let_def first_byte second_byte third_byte by (rule refl)

lemma digit_codes:
  "map of_char ''0123456789abcdef'' = map (\<lambda>n. if n < 10 then 48 + n else 87 + n) [0 ..< 16 :: nat]"
  by code_simp

lemma digitChar_explicit:
  assumes "n < 16"
  shows "of_char (digitChar n) = (if n < 10 then 48 + n else 87 + n)"
proof -
  have "of_char (digitChar n) = map of_char ''0123456789abcdef'' ! n"
    unfolding digitChar_def using assms by (subst nth_map) simp_all
  also have "\<dots> = (if n < 10 then 48 + n else 87 + n)"
    unfolding digit_codes using assms by (subst nth_map) simp_all
  finally show ?thesis .
qed

lemma digitChar_decimal:
  assumes "d < 10"
  shows "is_digit (digitChar d) \<and> of_char (digitChar d) - 48 = d"
proof -
  have "digitChar d = (''0123456789'' @ ''abcdef'') ! d" by (simp add: digitChar_def)
  also have "\<dots> = ''0123456789'' ! d" using assms by (subst nth_append) simp
  finally have e: "digitChar d = ''0123456789'' ! d" .
  have "''0123456789'' ! d \<in> set ''0123456789''"
    by (rule nth_mem) (use assms in simp)
  then have "digitChar d \<in> set ''0123456789''" unfolding e .
  moreover have "of_char (digitChar d) = 48 + d"
    using digitChar_explicit [of d] assms by simp
  ultimately show ?thesis by (simp add: is_digit_def)
qed

lemma parseInt_snoc: "parseInt (ds @ [c]) = 10 * parseInt ds + (of_char c - 48)"
  by (simp add: parseInt_def)

lemma numToString_10:
  "numToString 10 n \<noteq> [] \<and> list_all is_digit (numToString 10 n) \<and> parseInt (numToString 10 n) = n"
proof (induction n rule: less_induct)
  case (less n)
  show ?case
  proof (cases "n < 10")
    case True
    then show ?thesis
      using digitChar_decimal [of n] by (simp add: numToString.simps [of 10 n] parseInt_def)
  next
    case False
    then have "n div 10 < n" by simp
    from less.IH [OF this] digitChar_decimal [of "n mod 10"] False
    show ?thesis
      by (simp add: numToString.simps [of 10 n] parseInt_snoc)
  qed
qed

lemma skip_ws_spaces:
  "list_all is_space ws \<Longrightarrow> \<not> is_space c \<Longrightarrow> skip_ws (ws @ c # rest) = c # rest"
  by (induction ws) (simp_all add: skip_ws_def)

lemma digits1_group:
  assumes "ds \<noteq> []" and "list_all is_digit ds" and "\<not> is_digit c"
  shows "digits1 (ds @ c # rest) = Some (ds, c # rest)"
proof -
  have t: "takeWhile is_digit (ds @ c # rest) = ds" and d: "dropWhile is_digit (ds @ c # rest) = c # rest"
    using assms(2,3) by (induction ds) simp_all
  show ?thesis using assms(1) by (simp add: digits1_def t d)
qed

lemma digit_not_space: "is_digit c \<Longrightarrow> \<not> is_space c"
  by (auto simp: is_digit_def is_space_def)

lemma skip_ws_digits:
  assumes "list_all is_space ws" and "ds \<noteq> []" and "list_all is_digit ds"
  shows "skip_ws (ws @ ds @ rest) = ds @ rest"
proof -
  obtain c cs where ds: "ds = c # cs" using assms(2) by (cases ds) auto
  with assms(3) have "\<not> is_space c" by (simp add: digit_not_space)
  from skip_ws_spaces [OF assms(1) this] show ?thesis by (simp add: ds)
qed

lemma space_not_digit: "is_space c \<Longrightarrow> \<not> is_digit c"
  using digit_not_space by blast

lemma digits1_then:
  assumes "ds \<noteq> []" and "list_all is_digit ds" and "list_all is_space ws" and "\<not> is_digit c" and "\<not> is_space c"
  shows "\<exists>r. digits1 (ds @ ws @ c # rest) = Some (ds, r) \<and> skip_ws r = c # rest"
proof (cases ws)
  case Nil
  with digits1_group [OF assms(1,2,4), of rest] assms(5) show ?thesis
    by (simp add: skip_ws_def)
next
  case (Cons x xs)
  with assms(3) have "\<not> is_digit x" by (simp add: space_not_digit)
  from digits1_group [OF assms(1,2) this, of "xs @ c # rest"]
  have "digits1 (ds @ ws @ c # rest) = Some (ds, ws @ c # rest)" by (simp add: Cons)
  with skip_ws_spaces [OF assms(3,5), of rest] show ?thesis by simp
qed


lemma lit_prefix: "lit p (p @ rest) = Some rest"
  by (simp add: lit_def)

lemma punct_class:
  "\<not> is_space CHR ''(''" "\<not> is_space CHR '',''" "\<not> is_space CHR '')''"
  "\<not> is_digit CHR '',''" "\<not> is_digit CHR '')''"
  by (simp_all add: is_space_def is_digit_def)

lemma match_here_rgb:
  assumes w: "list_all is_space w1" "list_all is_space w2" "list_all is_space w3"
      "list_all is_space w4" "list_all is_space w5" "list_all is_space w6" "list_all is_space w7"
    and d: "ds1 \<noteq> []" "list_all is_digit ds1" "ds2 \<noteq> []" "list_all is_digit ds2"
      "ds3 \<noteq> []" "list_all is_digit ds3"
  shows "match_here (''rgb'' @ w1 @ ''('' @ w2 @ ds1 @ w3 @ '','' @ w4 @ ds2 @ w5 @ '','' @ w6 @ ds3 @ w7 @ '')'' @ rest)
           = Some (ds1, ds2, ds3)"
proof -
  let ?t3 = "ds3 @ w7 @ CHR '')'' # rest"
  let ?t2 = "ds2 @ w5 @ CHR '','' # w6 @ ?t3"
  let ?t1 = "ds1 @ w3 @ CHR '','' # w4 @ ?t2"
  have 1: "lit ''rgb'' (''rgb'' @ w1 @ CHR ''('' # w2 @ ?t1) = Some (w1 @ CHR ''('' # w2 @ ?t1)"
    by (rule lit_prefix)
  have 2: "skip_ws (w1 @ CHR ''('' # w2 @ ?t1) = CHR ''('' # w2 @ ?t1"
    by (rule skip_ws_spaces [OF w(1) punct_class(1)])
  have 3: "lit ''('' (CHR ''('' # w2 @ ?t1) = Some (w2 @ ?t1)"
    using lit_prefix [of "''(''" "w2 @ ?t1"] by simp
  have 4: "skip_ws (w2 @ ?t1) = ?t1"
    by (rule skip_ws_digits [OF w(2) d(1,2)])
  from digits1_then [OF d(1,2) w(3) punct_class(4) punct_class(2), of "w4 @ ?t2"]
  obtain r1 where 5: "digits1 ?t1 = Some (ds1, r1)" and 6: "skip_ws r1 = CHR '','' # w4 @ ?t2"
    by auto
  have 7: "lit '','' (CHR '','' # w4 @ ?t2) = Some (w4 @ ?t2)"
    using lit_prefix [of "'',''" "w4 @ ?t2"] by simp
  have 8: "skip_ws (w4 @ ?t2) = ?t2"
    by (rule skip_ws_digits [OF w(4) d(3,4)])
  from digits1_then [OF d(3,4) w(5) punct_class(4) punct_class(2), of "w6 @ ?t3"]
  obtain r2 where 9: "digits1 ?t2 = Some (ds2, r2)" and 10: "skip_ws r2 = CHR '','' # w6 @ ?t3"
    by auto
  have 11: "lit '','' (CHR '','' # w6 @ ?t3) = Some (w6 @ ?t3)"
    using lit_prefix [of "'',''" "w6 @ ?t3"] by simp
  have 12: "skip_ws (w6 @ ?t3) = ?t3"
    by (rule skip_ws_digits [OF w(6) d(5,6)])
  from digits1_then [OF d(5,6) w(7) punct_class(5) punct_class(3), of rest]
  obtain r3 where 13: "digits1 ?t3 = Some (ds3, r3)" and 14: "skip_ws r3 = CHR '')'' # rest"
    by auto
  have 15: "lit '')'' (CHR '')'' # rest) = Some rest"
    using lit_prefix [of "'')''" rest] by simp
  have "match_here (''rgb'' @ w1 @ CHR ''('' # w2 @ ?t1) = Some (ds1, ds2, ds3)"
    unfolding match_here_def 1 by (simp only: option.case prod.case 2 3 4 5 6 7 8 9 10 11 12 13 14 15)
  then show ?thesis by simp
qed

lemma convertColor_rgb:
  assumes w: "list_all is_space w1" "list_all is_space w2" "list_all is_space w3"
      "list_all is_space w4" "list_all is_space w5" "list_all is_space w6" "list_all is_space w7"
    and d: "ds1 \<noteq> []" "list_all is_digit ds1" "ds2 \<noteq> []" "list_all is_digit ds2"
      "ds3 \<noteq> []" "list_all is_digit ds3"
  shows "convertColor (JStr (''rgb'' @ w1 @ ''('' @ w2 @ ds1 @ w3 @ '','' @ w4 @ ds2 @ w5 @ '','' @ w6 @ ds3 @ w7 @ '')'' @ rest))
           = Inr (JStr (''#'' @ hex (parseInt ds1) @ hex (parseInt ds2) @ hex (parseInt ds3)))"
proof -
  let ?s = "''rgb'' @ w1 @ ''('' @ w2 @ ds1 @ w3 @ '','' @ w4 @ ds2 @ w5 @ '','' @ w6 @ ds3 @ w7 @ '')'' @ rest"
  have m: "match_here ?s = Some (ds1, ds2, ds3)" by (rule match_here_rgb [OF w d])
  have "\<exists>cs. ?s = CHR ''r'' # cs" by simp
  then obtain cs where cs: "?s = CHR ''r'' # cs" by blast
  have "re_match (CHR ''r'' # cs) = Some (ds1, ds2, ds3)"
    using m unfolding cs by simp
  then have r: "re_match ?s = Some (ds1, ds2, ds3)" unfolding cs .
  have t: "take 3 ?s = ''rgb''" by simp
  show ?thesis
    unfolding convertColor.simps t r by simp
qed

lemma convertColor_cmdvalue: "\<exists>c. convertColor (of_cmdvalue x) = Inr c"
  by (cases x) (auto split: option.splits)

subsection \<open>getCommandState never raises on the catalogue\<close>

text \<open>
  The only entry of \<open>commands\<close> whose name contains \<^verbatim>\<open>color\<close> is queried for its
  value, and a value is a string or a number, so \<open>convertColor\<close> is never
  handed anything it raises on.  The world is left as it was but for the log.
\<close>

lemma assign_nonempty: "assign arr k v \<noteq> []"
  by (cases arr) (auto split: if_splits)

lemma getCommandState_loop_step:
  assumes "search ''color'' c \<Longrightarrow> t \<noteq> ''state''"
  shows "\<exists>arr1 m. arr1 \<noteq> [] \<and>
           getCommandState_loop ((c, t) # cs) acc w = getCommandState_loop cs arr1 (debug m w)"
proof (cases "search ''color'' c")
  case True
  then have t: "t \<noteq> ''state''" using assms by simp
  obtain cc where cc: "convertColor (of_cmdvalue (queryCommandValue (rich w) c)) = Inr cc"
    using convertColor_cmdvalue by blast
  show ?thesis
  proof (cases "t = ''value''")
    case True
    then show ?thesis by (simp add: Let_def cc) (metis assign_nonempty)
  next
    case False
    with t show ?thesis by (simp add: Let_def) (metis assign_nonempty)
  qed
next
  case False
  then show ?thesis by (simp add: Let_def) (metis assign_nonempty)
qed

lemma getCommandState_loop_total:
  assumes "\<And>c t. (c, t) \<in> set cs \<Longrightarrow> search ''color'' c \<Longrightarrow> t \<noteq> ''state''"
  shows "\<exists>arr ds. getCommandState_loop cs acc w = (Inr arr, w\<lparr>trace := trace w @ ds\<rparr>) \<and>
           fired ds = [] \<and> (acc \<noteq> [] \<or> cs \<noteq> [] \<longrightarrow> arr \<noteq> [])"
  using assms
proof (induction cs arbitrary: acc w)
  case Nil
  have "w = w\<lparr>trace := trace w @ []\<rparr>" by simp
  then have "getCommandState_loop [] acc w = (Inr acc, w\<lparr>trace := trace w @ []\<rparr>)" by simp
  then show ?case by (metis fired.simps(1))
next
  case (Cons ct cs)
  obtain c t where ct: "ct = (c, t)" by (cases ct)
  have rest: "\<And>c t. (c, t) \<in> set cs \<Longrightarrow> search ''color'' c \<Longrightarrow> t \<noteq> ''state''"
    using Cons.prems by auto
  have "search ''color'' c \<Longrightarrow> t \<noteq> ''state''" using Cons.prems ct by auto
  from getCommandState_loop_step [where cs = cs and acc = acc and w = w, OF this]
  obtain arr1 m where ne: "arr1 \<noteq> []"
    and s1: "getCommandState_loop (ct # cs) acc w = getCommandState_loop cs arr1 (debug m w)"
    unfolding ct by blast
  have "\<exists>arr ds. getCommandState_loop cs arr1 (debug m w)
            = (Inr arr, (debug m w)\<lparr>trace := trace (debug m w) @ ds\<rparr>) \<and>
          fired ds = [] \<and> (arr1 \<noteq> [] \<or> cs \<noteq> [] \<longrightarrow> arr \<noteq> [])"
    by (rule Cons.IH) (rule rest)
  then obtain arr ds where s2: "getCommandState_loop cs arr1 (debug m w)
        = (Inr arr, (debug m w)\<lparr>trace := trace (debug m w) @ ds\<rparr>)"
    and f: "fired ds = []" and a: "arr \<noteq> []"
    using ne by blast
  have "(debug m w)\<lparr>trace := trace (debug m w) @ ds\<rparr> = w\<lparr>trace := trace w @ (Debug m # ds)\<rparr>"
    by (simp add: debug_def)
  with s1 s2 f a show ?case by (metis fired.simps(3))
qed

lemma commands_color: "(c, t) \<in> set commands \<Longrightarrow> search ''color'' c \<Longrightarrow> t \<noteq> ''state''"
  by (auto simp: commands_def)

lemma getCommandState_total:
  "\<exists>c ds. getCommandState s w = (Inr c, w\<lparr>trace := trace w @ ds\<rparr>) \<and> fired ds = [] \<and>
     (doc s \<noteq> None \<and> node s \<noteq> None \<longrightarrow> (\<exists>x xs. c = CArray (x # xs)))"
proof (cases "doc s = None \<or> node s = None")
  case True
  have "w = w\<lparr>trace := trace w @ []\<rparr>" by simp
  then have "getCommandState s w = (Inr CFalse, w\<lparr>trace := trace w @ []\<rparr>)"
    using True unfolding getCommandState_def by auto
  with True show ?thesis by (metis fired.simps(1))
next
  case False
  have "commands \<noteq> []" by (simp add: commands_def)
  with getCommandState_loop_total [of commands "[]" w] commands_color
  obtain arr ds where "getCommandState_loop commands [] w = (Inr arr, w\<lparr>trace := trace w @ ds\<rparr>)"
    and "fired ds = []" and "arr \<noteq> []"
    by blast
  with False show ?thesis unfolding getCommandState_def by (cases arr) auto
qed

lemma captured_total:
  "\<exists>c ds. getCommandState s (debug ''checkCommandState()'' w) = (Inr c, w\<lparr>trace := trace w @ ds\<rparr>) \<and>
     fired ds = [] \<and> captured s w = Inr c \<and>
     (doc s \<noteq> None \<and> node s \<noteq> None \<longrightarrow> (\<exists>x xs. c = CArray (x # xs)))"
proof -
  let ?w = "debug ''checkCommandState()'' w"
  obtain c ds where g: "getCommandState s ?w = (Inr c, ?w\<lparr>trace := trace ?w @ ds\<rparr>)"
    and f: "fired ds = []"
    and a: "doc s \<noteq> None \<and> node s \<noteq> None \<longrightarrow> (\<exists>x xs. c = CArray (x # xs))"
    using getCommandState_total by blast
  have "?w\<lparr>trace := trace ?w @ ds\<rparr> = w\<lparr>trace := trace w @ (Debug ''checkCommandState()'' # ds)\<rparr>"
    by (simp add: debug_def)
  with g f a show ?thesis unfolding captured_def by (metis fired.simps(3) fst_conv)
qed

subsection \<open>The three ways a call of checkCommandState can go\<close>

lemma checkCommandState_first:
  assumes "\<And>a. cachedCommandArray s \<noteq> Some (CArray a)"
  shows "\<exists>c ds. captured s w = Inr c \<and> fired ds = [] \<and>
           (doc s \<noteq> None \<and> node s \<noteq> None \<longrightarrow> (\<exists>x xs. c = CArray (x # xs))) \<and>
           checkCommandState E s w =
             (case stateChangeCallback s of
                Some cb \<Rightarrow> (Inr (JBool True), s\<lparr>cachedCommandArray := Some c\<rparr>,
                            w\<lparr>trace := trace w @ ds @ [StateChange cb c]\<rparr>)
              | None \<Rightarrow> (Inr (JBool True), s, w\<lparr>trace := trace w @ ds\<rparr>))"
proof -
  obtain c ds where g: "getCommandState s (debug ''checkCommandState()'' w) = (Inr c, w\<lparr>trace := trace w @ ds\<rparr>)"
    and f: "fired ds = []" and cp: "captured s w = Inr c"
    and a: "doc s \<noteq> None \<and> node s \<noteq> None \<longrightarrow> (\<exists>x xs. c = CArray (x # xs))"
    using captured_total by blast
  have sel: "(case cachedCommandArray s of
                Some (CArray cached) \<Rightarrow>
                  checkCommandState_loop E s cached (map fst cached) False (w\<lparr>trace := trace w @ ds\<rparr>)
              | _ \<Rightarrow> (Inr True, w\<lparr>trace := trace w @ ds\<rparr>)) = (Inr True, w\<lparr>trace := trace w @ ds\<rparr>)"
    using assms by (auto split: option.splits cstate.splits)
  have "checkCommandState E s w =
             (case stateChangeCallback s of
                Some cb \<Rightarrow> (Inr (JBool True), s\<lparr>cachedCommandArray := Some c\<rparr>,
                            w\<lparr>trace := trace w @ ds @ [StateChange cb c]\<rparr>)
              | None \<Rightarrow> (Inr (JBool True), s, w\<lparr>trace := trace w @ ds\<rparr>))"
    unfolding checkCommandState_def g by (simp add: sel split: option.splits)
  with f cp a show ?thesis by blast
qed

lemma checkCommandState_cached:
  assumes "cachedCommandArray s = Some (CArray (x # xs))"
  shows "\<exists>ds. fired ds = [] \<and> checkCommandState E s w = (Inl TypeError, s, w\<lparr>trace := trace w @ ds\<rparr>)"
proof -
  obtain c ds where g: "getCommandState s (debug ''checkCommandState()'' w) = (Inr c, w\<lparr>trace := trace w @ ds\<rparr>)"
    and f: "fired ds = []"
    using captured_total by blast
  have "checkCommandState E s w = (Inl TypeError, s, w\<lparr>trace := trace w @ ds\<rparr>)"
    unfolding checkCommandState_def g using assms by (simp add: this_commandArray_def)
  with f show ?thesis by blast
qed

lemma checkCommandState_cached_empty:
  assumes "cachedCommandArray s = Some (CArray [])"
  shows "\<exists>ds. fired ds = [] \<and> checkCommandState E s w = (Inr (JBool True), s, w\<lparr>trace := trace w @ ds\<rparr>)"
proof -
  obtain c ds where g: "getCommandState s (debug ''checkCommandState()'' w) = (Inr c, w\<lparr>trace := trace w @ ds\<rparr>)"
    and f: "fired ds = []"
    using captured_total by blast
  have "checkCommandState E s w = (Inr (JBool True), s, w\<lparr>trace := trace w @ ds\<rparr>)"
    unfolding checkCommandState_def g using assms by (simp split: option.splits)
  with f show ?thesis by blast
qed

text \<open>
  Every call either leaves the object alone and fires nothing, or stores the fresh
  snapshot and fires it.
\<close>

lemma checkCommandState_cases:
  "(\<exists>r ds. fired ds = [] \<and> checkCommandState E s w = (r, s, w\<lparr>trace := trace w @ ds\<rparr>)) \<or>
   (\<exists>cb c ds. fired ds = [] \<and> stateChangeCallback s = Some cb \<and> captured s w = Inr c \<and>
       checkCommandState E s w = (Inr (JBool True), s\<lparr>cachedCommandArray := Some c\<rparr>,
                            w\<lparr>trace := trace w @ ds @ [StateChange cb c]\<rparr>))"
proof (cases "cachedCommandArray s")
  case None
  then have "\<And>a. cachedCommandArray s \<noteq> Some (CArray a)" by simp
  from checkCommandState_first [OF this, of w E]
  show ?thesis by (cases "stateChangeCallback s") auto
next
  case (Some cs)
  show ?thesis
  proof (cases cs)
    case CFalse
    with Some have "\<And>a. cachedCommandArray s \<noteq> Some (CArray a)" by simp
    from checkCommandState_first [OF this, of w E]
    show ?thesis by (cases "stateChangeCallback s") auto
  next
    case (CArray a)
    show ?thesis
    proof (cases a)
      case Nil
      with Some CArray checkCommandState_cached_empty [of s E w] show ?thesis by blast
    next
      case (Cons x xs)
      with Some CArray checkCommandState_cached [of s x xs E w] show ?thesis by blast
    qed
  qed
qed

subsection \<open>The node check\<close>

lemma checkNodeType_non_element:
  "\<not> element_kind nd w \<Longrightarrow>
     checkNodeType nd w = (False, w\<lparr>trace := trace w @ [Debug ''checkNodeType() : Incorrect element type'']\<rparr>)"
  by (auto simp: element_kind_def checkNodeType_def debug_def split: option.splits)

lemma checkNodeType_element:
  "element_kind nd w \<Longrightarrow> checkNodeType nd w = (True, w) \<and> (\<exists>a. nd = Some a)"
  by (auto simp: element_kind_def checkNodeType_def ELEMENT_NODE_def split: option.splits)

subsection \<open>The sample page\<close>

lemma sample_text_kind: "\<not> element_kind (Some 2) sample_world"
  by (simp add: element_kind_def sample_world_def sample_text_def TEXT_NODE_def ELEMENT_NODE_def)

lemma sample_element_kind: "element_kind (Some 1) sample_world"
  by (simp add: element_kind_def sample_world_def sample_element_def ELEMENT_NODE_def)

lemma webkit_on_session:
  "session_of webkit_on = (new_session Webkit 0)
     \<lparr>doc := Some HostingDocument, node := Some 1, stateChangeCallback := Some 7\<rparr>"
  by (simp add: webkit_on_def editableOn_def webkit_editableOn_def checkNodeType_def
        setStateChangeCallBack_def new_session_def sample_world_def sample_element_def
        ELEMENT_NODE_def outcome_defs Let_def)

lemma webkit_on_trace: "trace (world_of webkit_on) = []"
  by (simp add: webkit_on_def editableOn_def webkit_editableOn_def checkNodeType_def
        setStateChangeCallBack_def new_session_def sample_world_def sample_element_def
        ELEMENT_NODE_def outcome_defs Let_def)

lemma webkit_on_captured:
  "captured (session_of webkit_on) (world_of webkit_on) = Inr sample_snapshot"
  by code_simp

lemma webkit_quiet_session:
  "session_of webkit_quiet = (new_session Webkit 0)\<lparr>doc := Some HostingDocument, node := Some 1\<rparr>"
  by (simp add: webkit_quiet_def editableOn_def webkit_editableOn_def checkNodeType_def
        new_session_def sample_world_def sample_element_def
        ELEMENT_NODE_def outcome_defs Let_def)

lemma ie_on_session:
  "session_of ie_on = (new_session Trident 0)\<lparr>doc := Some HostingDocument, node := Some 1\<rparr>"
  by (simp add: ie_on_def editableOn_def ie_editableOn_def checkNodeType_def
        new_session_def sample_world_def sample_element_def
        ELEMENT_NODE_def outcome_defs Let_def)

lemma ie_on_text: "innerText (nodes (world_of ie_on) 1) = ''hello world''"
  by (simp add: ie_on_def editableOn_def ie_editableOn_def checkNodeType_def
        new_session_def sample_world_def sample_element_def
        ELEMENT_NODE_def outcome_defs Let_def)

subsection \<open>Two checks in a row\<close>

lemma checkCommandState_twice:
  assumes "doc s \<noteq> None" and "node s \<noteq> None" and "stateChangeCallback s = Some cb"
    and "cachedCommandArray s \<noteq> Some (CArray [])"
  shows "(\<exists>w1. checkCommandState E s w = (Inl TypeError, s, w1)) \<or>
         (\<exists>x xs w1. checkCommandState E s w =
            (Inr (JBool True), s\<lparr>cachedCommandArray := Some (CArray (x # xs))\<rparr>, w1))"
proof (cases "\<exists>a. cachedCommandArray s = Some (CArray a)")
  case True
  then obtain a where a: "cachedCommandArray s = Some (CArray a)" by blast
  with assms(4) obtain x xs where "a = x # xs" by (cases a) auto
  with a checkCommandState_cached [of s x xs E w] show ?thesis by blast
next
  case False
  then have "\<And>a. cachedCommandArray s \<noteq> Some (CArray a)" by blast
  from checkCommandState_first [OF this, of w E] assms(1,2,3)
  obtain x xs w1 where "checkCommandState E s w =
            (Inr (JBool True), s\<lparr>cachedCommandArray := Some (CArray (x # xs))\<rparr>, w1)"
    by auto
  then show ?thesis by blast
qed

lemma preExecCommand_keeps:
  assumes "node s \<noteq> None"
  shows "\<exists>s1 w1. preExecCommand s w = (Inr JUndef, s1, w1) \<and> kind s1 = kind s \<and> doc s1 = doc s \<and>
           node s1 = node s \<and> stateChangeCallback s1 = stateChangeCallback s \<and>
           cachedCommandArray s1 = cachedCommandArray s"
  using assms
  by (cases "kind s")
     (auto simp: preExecCommand_def gecko_preExecCommand_def webkit_preExecCommand_def
        webkit_highlightSelection_def ie_preExecCommand_def ie_highlightSelection_def Let_def
        split: option.splits)

lemma postExecCommand_caches:
  assumes "kind s \<noteq> Base" and "doc s \<noteq> None" and "node s \<noteq> None"
    and "stateChangeCallback s = Some cb" and "cachedCommandArray s \<noteq> Some (CArray [])"
  shows "(\<exists>s3 w3. postExecCommand E s w = (Inl TypeError, s3, w3)) \<or>
         (\<exists>r s3 w3 x xs. postExecCommand E s w = (Inr r, s3, w3) \<and>
            cachedCommandArray s3 = Some (CArray (x # xs)))"
proof (cases "kind s")
  case Base
  with assms(1) show ?thesis by simp
next
  case Gecko
  from checkCommandState_twice [OF assms(2-5), of E w]
  show ?thesis
    by (auto simp: postExecCommand_def Gecko gecko_postExecCommand_def gecko_update_def
          split: option.splits)
next
  case Webkit
  let ?s = "s\<lparr>baseNode := sel_baseNode (windowSelection w), baseOffset := sel_baseOffset (windowSelection w),
             extentNode := sel_extentNode (windowSelection w), extentOffset := sel_extentOffset (windowSelection w)\<rparr>"
  have "doc ?s \<noteq> None" "node ?s \<noteq> None" "stateChangeCallback ?s = Some cb"
    "cachedCommandArray ?s \<noteq> Some (CArray [])" using assms by simp_all
  from checkCommandState_twice [OF this, of E w]
  show ?thesis
    by (auto simp: postExecCommand_def Webkit webkit_postExecCommand_def webkit_update_def
          webkit_cacheSelection_def Let_def)
next
  case Trident
  show ?thesis
  proof (cases "documentSelection w")
    case None
    from checkCommandState_twice [OF assms(2-5), of E w]
    show ?thesis
      by (auto simp: postExecCommand_def Trident ie_postExecCommand_def ie_update_def
            ie_cacheSelection_def None)
  next
    case (Some r)
    obtain d a where d: "doc s = Some d" and a: "node s = Some a" using assms(2,3) by auto
    let ?s = "s\<lparr>cachedRange := Some r, cachedInnerText := Some (innerText (nodes w a))\<rparr>"
    have "doc ?s \<noteq> None" "node ?s \<noteq> None" "stateChangeCallback ?s = Some cb"
      "cachedCommandArray ?s \<noteq> Some (CArray [])" using assms by simp_all
    from checkCommandState_twice [OF this, of E w]
    show ?thesis
      by (auto simp: postExecCommand_def Trident ie_postExecCommand_def ie_update_def
            ie_cacheSelection_def Some d a Let_def)
  qed
qed

subsection \<open>The Gecko strategy on the sample page\<close>

lemma getCommandState_world:
  "nodes (snd (getCommandState s w)) = nodes w \<and>
   bodyOffsetHeight (snd (getCommandState s w)) = bodyOffsetHeight w \<and>
   fst (getCommandState s w) \<noteq> Inl TypeError"
proof -
  obtain c ds where "getCommandState s w = (Inr c, w\<lparr>trace := trace w @ ds\<rparr>)"
    using getCommandState_total by blast
  then show ?thesis by simp
qed

lemma checkCommandState_quiet:
  assumes "stateChangeCallback s = None" and "cachedCommandArray s = None"
  shows "checkCommandState E s w =
           (Inr (JBool True), s, snd (getCommandState s (debug ''checkCommandState()'' w)))"
proof -
  obtain c ds where "getCommandState s (debug ''checkCommandState()'' w) = (Inr c, w\<lparr>trace := trace w @ ds\<rparr>)"
    using captured_total by blast
  then show ?thesis using assms by (simp add: checkCommandState_def)
qed

lemma gecko_update_quiet:
  assumes "stateChangeCallback s = None" and "cachedCommandArray s = None"
    and "iframe s = Some f" and "doc s = Some d"
  shows "gecko_update E s w =
           (Inr JUndef,
            s\<lparr>iframe := Some (f\<lparr>fr_style := (fr_style f)\<lparr>st_height := px (bodyOffsetHeight w)\<rparr>\<rparr>)\<rparr>,
            snd (getCommandState s (debug ''checkCommandState()'' w)))"
  using assms getCommandState_world [of s "debug ''checkCommandState()'' w"]
  by (simp add: gecko_update_def checkCommandState_quiet debug_def)

lemma px_80: "px 80 = ''80px''"
  by code_simp

lemmas sample_defs = sample_world_def sample_element_def sample_body_def sample_text_def
  emptyStyle_def ELEMENT_NODE_def TEXT_NODE_def new_session_def

lemma gecko_swapIn_sample:
  "gecko_swapIn 1 (new_session Gecko 0) sample_world =
     (Inr 10,
      (new_session Gecko 0)\<lparr>iframe := Some ((gecko_frameFor sample_element)\<lparr>fr_parentNode := Some (PageNode 0)\<rparr>),
         originalNode := Some 11\<rparr>,
      sample_world\<lparr>nodes := (nodes sample_world)
           (10 := cloneNode sample_element, 11 := cloneNode sample_element,
            1 := sample_element\<lparr>parentNode := None\<rparr>),
         next_addr := 12\<rparr>)"
  by (simp add: gecko_swapIn_def Let_def setParent_def sample_defs cloneNode_def fun_upd_twist)


lemma new_session_kind: "kind (new_session k i) = k"
  by (simp add: new_session_def)

lemma gecko_on_eval:
  "\<exists>F W. gecko_on =
      (Inr JUndef,
       (new_session Gecko 0)\<lparr>iframe := Some F, originalNode := Some 11, node := Some 10,
          doc := Some FrameDocument\<rparr>, W) \<and>
     fr_parentNode F = Some (PageNode 0) \<and>
     st_width (fr_style F) = ''100%'' \<and> st_height (fr_style F) = ''80px'' \<and>
     nodes W 10 = (cloneNode sample_element)\<lparr>parentNode := Some FrameBody\<rparr> \<and>
     nodes W 11 = cloneNode sample_element"
proof -
  have ck: "checkNodeType (Some 1) sample_world = (True, sample_world)"
    using checkNodeType_element [OF sample_element_kind] by simp
  show ?thesis
    unfolding gecko_on_def editableOn_def gecko_editableOn_def ck
    apply (simp only: new_session_kind strategy.case prod.case option.case bool.case sum.case gecko_swapIn_sample)
    apply (simp add: gecko_fillFrame_def Let_def setParent_def
          gecko_update_quiet getCommandState_world px_80 gecko_frameFor_def createFrame_def
          sample_defs)
    done
qed

lemma setStyle_nodes:
  "nodes (setStyle a f w) b =
     (if b = a then (nodes w a)\<lparr>el_style := f (el_style (nodes w a))\<rparr> else nodes w b)"
  by (simp add: setStyle_def)

lemma setParent_nodes:
  "nodes (setParent a p w) b = (if b = a then (nodes w a)\<lparr>parentNode := p\<rparr> else nodes w b)"
  by (simp add: setParent_def)

lemma gecko_editableOff_run:
  assumes "kind s = Gecko" and "iframe s = Some f" and "node s = Some a"
    and "originalNode s = Some orig" and "fr_parentNode f = Some p"
  shows "result_of (editableOff s w) = Inr JUndef \<and>
         iframe (session_of (editableOff s w)) = None \<and>
         kind (session_of (editableOff s w)) = Gecko \<and>
         parentNode (nodes (world_of (editableOff s w)) a) = Some p \<and>
         st_width (el_style (nodes (world_of (editableOff s w)) a)) =
           (if st_width (el_style (nodes w orig)) \<noteq> [] then st_width (fr_style f)
            else st_width (el_style (nodes w orig))) \<and>
         st_height (el_style (nodes (world_of (editableOff s w)) a)) =
           (if st_height (el_style (nodes w orig)) \<noteq> [] then st_height (fr_style f)
            else st_height (el_style (nodes w orig)))"
  using assms
  by (simp add: editableOff_def gecko_editableOff_def outcome_defs Let_def setStyle_nodes setParent_nodes)

lemma gecko_on_facts:
  "result_of gecko_on = Inr JUndef \<and> kind (session_of gecko_on) = Gecko \<and>
   doc (session_of gecko_on) = Some FrameDocument \<and>
   node (session_of gecko_on) = Some 10 \<and> originalNode (session_of gecko_on) = Some 11 \<and>
   (\<exists>f. iframe (session_of gecko_on) = Some f \<and> fr_parentNode f = Some (PageNode 0) \<and>
        st_width (fr_style f) = ''100%'' \<and> st_height (fr_style f) = ''80px'') \<and>
   st_width (el_style (nodes (world_of gecko_on) 11)) = [] \<and>
   st_height (el_style (nodes (world_of gecko_on) 11)) = ''50px''"
proof -
  from gecko_on_eval obtain F W where
    eq: "gecko_on = (Inr JUndef,
       (new_session Gecko 0)\<lparr>iframe := Some F, originalNode := Some 11, node := Some 10,
          doc := Some FrameDocument\<rparr>, W)"
    and F: "fr_parentNode F = Some (PageNode 0)"
      "st_width (fr_style F) = ''100%''" "st_height (fr_style F) = ''80px''"
    and W: "nodes W 11 = cloneNode sample_element"
    by blast
  show ?thesis
    unfolding eq outcome_defs
    by (simp add: F W new_session_def cloneNode_def sample_element_def emptyStyle_def)
qed

lemma gecko_off_facts:
  "result_of gecko_off = Inr JUndef \<and> iframe (session_of gecko_off) = None \<and>
   kind (session_of gecko_off) = Gecko \<and>
   parentNode (nodes (world_of gecko_off) 10) = Some (PageNode 0) \<and>
   st_width (el_style (nodes (world_of gecko_off) 10)) = [] \<and>
   st_height (el_style (nodes (world_of gecko_off) 10)) = ''80px''"
proof -
  from gecko_on_facts obtain f where f: "iframe (session_of gecko_on) = Some f"
    and p: "fr_parentNode f = Some (PageNode 0)"
    and fw: "st_width (fr_style f) = ''100%''" and fh: "st_height (fr_style f) = ''80px''"
    by blast
  have k: "kind (session_of gecko_on) = Gecko" and n: "node (session_of gecko_on) = Some 10"
    and o: "originalNode (session_of gecko_on) = Some 11"
    using gecko_on_facts by simp_all
  from gecko_editableOff_run [OF k f n o p, of "world_of gecko_on"] gecko_on_facts fw fh
  show ?thesis by (simp add: gecko_off_def)
qed

subsection \<open>Activation\<close>

lemma gecko_update_ok:
  assumes "\<And>a. cachedCommandArray s \<noteq> Some (CArray a)" and "iframe s = Some f" and "doc s = Some d"
  shows "result_of (gecko_update E s w) = Inr JUndef \<and> doc (session_of (gecko_update E s w)) = Some d"
proof -
  from checkCommandState_first [OF assms(1), of w E]
  obtain r s1 w1 where c: "checkCommandState E s w = (Inr r, s1, w1)"
    and i: "iframe s1 = iframe s" and d: "doc s1 = doc s"
    by (cases "stateChangeCallback s") auto
  show ?thesis
    using assms(2,3) i d by (simp add: gecko_update_def c outcome_defs)
qed

lemma gecko_editableOn_element_result:
  assumes "element_kind nd w"
  shows "result_of (gecko_editableOn E nd s w) = Inr JUndef \<or>
         result_of (gecko_editableOn E nd s w) = Inl TypeError"
proof -
  from checkNodeType_element [OF assms] obtain a where nd: "nd = Some a"
    and ck: "checkNodeType (Some a) w = (True, w)" by auto
  show ?thesis
    unfolding nd gecko_editableOn_def ck
    by (auto simp: outcome_defs error_is_TypeError split: prod.splits sum.splits)
qed

lemma gecko_swapIn_ok:
  assumes "a < next_addr w" and "parentNode (nodes w a) = Some p"
  shows "\<exists>c s1 w1 f. gecko_swapIn a s w = (Inr c, s1, w1) \<and> iframe s1 = Some f \<and>
           cachedCommandArray s1 = cachedCommandArray s \<and> styleElements w1 = styleElements w"
  using assms
  by (simp add: gecko_swapIn_def Let_def setStyle_def setParent_def)

lemma gecko_fillFrame_ok:
  assumes "iframe s = Some f" and "styleElements w \<noteq> []"
  shows "\<exists>s2 w2 f'. gecko_fillFrame c s w = (Inr JUndef, s2, w2) \<and> iframe s2 = Some f' \<and>
           doc s2 = Some FrameDocument \<and> cachedCommandArray s2 = cachedCommandArray s"
  using assms
  by (cases "styleElements w") (simp_all add: gecko_fillFrame_def Let_def)

lemma gecko_editableOn_ok:
  assumes el: "element_kind (Some a) w" and fresh: "a < next_addr w"
    and par: "parentNode (nodes w a) \<noteq> None" and sty: "styleElements w \<noteq> []"
    and cache: "cachedCommandArray s = None"
  shows "result_of (gecko_editableOn E (Some a) s w) = Inr JUndef \<and>
         doc (session_of (gecko_editableOn E (Some a) s w)) = Some FrameDocument"
proof -
  from checkNodeType_element [OF el] have ck: "checkNodeType (Some a) w = (True, w)" by blast
  obtain p where p: "parentNode (nodes w a) = Some p" using par by auto
  from gecko_swapIn_ok [OF fresh p, of s]
  obtain c s1 w1 f where 1: "gecko_swapIn a s w = (Inr c, s1, w1)" and f: "iframe s1 = Some f"
    and c1: "cachedCommandArray s1 = None" and st1: "styleElements w1 \<noteq> []"
    using cache sty by auto
  from gecko_fillFrame_ok [OF f st1, of c]
  obtain s2 w2 f' where 2: "gecko_fillFrame c s1 w1 = (Inr JUndef, s2, w2)" and f': "iframe s2 = Some f'"
    and d2: "doc s2 = Some FrameDocument" and c2: "cachedCommandArray s2 = None"
    using c1 by auto
  have h: "\<And>a. cachedCommandArray s2 \<noteq> Some (CArray a)" using c2 by simp
  from gecko_update_ok [OF h f' d2, of E w2]
  have 3: "result_of (gecko_update E s2 w2) = Inr JUndef"
    and d3: "doc (session_of (gecko_update E s2 w2)) = Some FrameDocument" by simp_all
  show ?thesis
    unfolding gecko_editableOn_def ck using 3 d3
    by (cases "gecko_update E s2 w2") (simp add: 1 2 outcome_defs)
qed

lemma inplace_editableOn_ok:
  assumes "element_kind nd w" and "kind s = Webkit \<or> kind s = Trident"
  shows "result_of (editableOn E nd s w) = Inr JUndef \<and>
         doc (session_of (editableOn E nd s w)) = Some HostingDocument \<and>
         node (session_of (editableOn E nd s w)) = nd"
proof -
  from checkNodeType_element [OF assms(1)]
  obtain x where "nd = Some x" "checkNodeType (Some x) w = (True, w)" by auto
  with assms(2) show ?thesis
    by (auto simp: editableOn_def webkit_editableOn_def ie_editableOn_def outcome_defs Let_def)
qed

section \<open>The claims\<close>

text \<open>
  C7.  \<open>convertColor\<close> maps the packed integer 0x0000FF (low byte red) to
  \<^verbatim>\<open>#ff0000\<close>, the string \<^verbatim>\<open>rgb(255, 0, 0)\<close> to \<^verbatim>\<open>#ff0000\<close>, the string \<^verbatim>\<open>#abcdef\<close>
  to itself, and \<^verbatim>\<open>not-a-color\<close> to \<^verbatim>\<open>null\<close>.  In general: a number \<open>v\<close> is
  converted to \<^verbatim>\<open>#\<close> followed by its low byte, its second byte and its third
  byte, in this order; a string \<^verbatim>\<open>rgb(r, g, b)\<close> with decimal components and any
  white space where the pattern allows it is converted to \<^verbatim>\<open>#\<close> followed by
  \<open>r\<close>, \<open>g\<close> and \<open>b\<close>; a string that starts with \<^verbatim>\<open>#\<close> is returned as it is; a
  string that starts with neither \<^verbatim>\<open>rgb\<close> nor \<^verbatim>\<open>#\<close>, or that starts with \<^verbatim>\<open>rgb\<close>
  and holds no match of the pattern, gives \<^verbatim>\<open>null\<close>.  Each byte (a value below
  256) is rendered as exactly two digits, the high one first and \<^verbatim>\<open>0\<close> when the
  byte is below 16, and the digits are \<^verbatim>\<open>0\<close> to \<^verbatim>\<open>9\<close> and lower-case \<^verbatim>\<open>a\<close> to
  \<^verbatim>\<open>f\<close>.
\<close>

theorem convertColor_shapes:
  "convertColor (JNum 0x0000FF) = Inr (JStr ''#ff0000'') \<and>
   convertColor (JStr ''rgb(255, 0, 0)'') = Inr (JStr ''#ff0000'') \<and>
   convertColor (JStr ''#abcdef'') = Inr (JStr ''#abcdef'') \<and>
   convertColor (JStr ''not-a-color'') = Inr JNull \<and>
   convertColor (JNum v) =
     Inr (JStr (''#'' @ hex (nat (v mod 256)) @ hex (nat (v div 256 mod 256))
                       @ hex (nat (v div 65536 mod 256)))) \<and>
   (r < 2 ^ 53 \<and> g < 2 ^ 53 \<and> b < 2 ^ 53 \<and>
    list_all is_space (w1 @ w2 @ w3 @ w4 @ w5 @ w6 @ w7) \<longrightarrow>
      convertColor (JStr (''rgb'' @ w1 @ ''('' @ w2 @ numToString 10 r @ w3 @ '','' @ w4 @
                          numToString 10 g @ w5 @ '','' @ w6 @ numToString 10 b @ w7 @ '')''))
        = Inr (JStr (''#'' @ hex r @ hex g @ hex b))) \<and>
   convertColor (JStr (CHR ''#'' # t)) = Inr (JStr (CHR ''#'' # t)) \<and>
   (take 1 s \<noteq> ''#'' \<and> take 3 s \<noteq> ''rgb'' \<longrightarrow> convertColor (JStr s) = Inr JNull) \<and>
   (take 3 s = ''rgb'' \<and> re_match s = None \<longrightarrow> convertColor (JStr s) = Inr JNull) \<and>
   (take 1 s \<noteq> ''#'' \<and> re_match s = None \<longrightarrow> convertColor (JStr s) = Inr JNull) \<and>
   (d < 256 \<longrightarrow> hex d = [digitChar (d div 16), digitChar (d mod 16)] \<and>
                  length (hex d) = 2 \<and> set (hex d) \<subseteq> set ''0123456789abcdef'') \<and>
   (n < 16 \<longrightarrow> of_char (digitChar n) = (if n < 10 then 48 + n else 87 + n))"
proof (intro conjI impI)
  show "convertColor (JNum 0x0000FF) = Inr (JStr ''#ff0000'')" by code_simp
  show "convertColor (JStr ''rgb(255, 0, 0)'') = Inr (JStr ''#ff0000'')" by code_simp
  show "convertColor (JStr ''#abcdef'') = Inr (JStr ''#abcdef'')" by simp
  show "convertColor (JStr ''not-a-color'') = Inr JNull" by simp
  show "convertColor (JNum v) =
     Inr (JStr (''#'' @ hex (nat (v mod 256)) @ hex (nat (v div 256 mod 256))
                       @ hex (nat (v div 65536 mod 256))))"
    by (rule convertColor_number)
  show "convertColor (JStr (CHR ''#'' # t)) = Inr (JStr (CHR ''#'' # t))" by simp
  show "take 1 s \<noteq> ''#'' \<and> take 3 s \<noteq> ''rgb'' \<Longrightarrow> convertColor (JStr s) = Inr JNull" by simp
  show "take 3 s = ''rgb'' \<and> re_match s = None \<Longrightarrow> convertColor (JStr s) = Inr JNull" by simp
  show "take 1 s \<noteq> ''#'' \<and> re_match s = None \<Longrightarrow> convertColor (JStr s) = Inr JNull" by simp
  show "d < 256 \<Longrightarrow> hex d = [digitChar (d div 16), digitChar (d mod 16)]" by (rule hex_byte)
  show "d < 256 \<Longrightarrow> length (hex d) = 2" using hex_byte_chars by blast
  show "d < 256 \<Longrightarrow> set (hex d) \<subseteq> set ''0123456789abcdef''" using hex_byte_chars by blast
  show "n < 16 \<Longrightarrow> of_char (digitChar n) = (if n < 10 then 48 + n else 87 + n)"
    by (rule digitChar_explicit)
next
  assume a: "r < 2 ^ 53 \<and> g < 2 ^ 53 \<and> b < 2 ^ 53 \<and>
    list_all is_space (w1 @ w2 @ w3 @ w4 @ w5 @ w6 @ w7)"
  then have w: "list_all is_space w1" "list_all is_space w2" "list_all is_space w3"
      "list_all is_space w4" "list_all is_space w5" "list_all is_space w6" "list_all is_space w7"
    by simp_all
  have d: "numToString 10 r \<noteq> []" "list_all is_digit (numToString 10 r)"
      "numToString 10 g \<noteq> []" "list_all is_digit (numToString 10 g)"
      "numToString 10 b \<noteq> []" "list_all is_digit (numToString 10 b)"
    using numToString_10 by simp_all
  from convertColor_rgb [OF w d, of "[]"]
  show "convertColor (JStr (''rgb'' @ w1 @ ''('' @ w2 @ numToString 10 r @ w3 @ '','' @ w4 @
                          numToString 10 g @ w5 @ '','' @ w6 @ numToString 10 b @ w7 @ '')''))
        = Inr (JStr (''#'' @ hex r @ hex g @ hex b))"
    by (simp add: numToString_10)
qed

theorem convertColor_shapes_witness:
  "convertColor (JNum 0x123456) = Inr (JStr ''#563412'') \<and>
   (255 :: nat) < 2 ^ 53 \<and> (0 :: nat) < 2 ^ 53 \<and> list_all is_space '' '' \<and>
   ''rgb'' @ ''('' @ numToString 10 255 @ '','' @ '' '' @ numToString 10 0 @ '','' @ '' '' @
     numToString 10 0 @ '')'' = ''rgb(255, 0, 0)'' \<and>
   convertColor (JStr ''rgb(255, 0, 0)'') = Inr (JStr (''#'' @ hex 255 @ hex 0 @ hex 0)) \<and>
   hex 255 = ''ff'' \<and> hex 0 = ''00'' \<and>
   convertColor (JStr ''#ABC'') = Inr (JStr ''#ABC'') \<and>
   take 1 ''not-a-color'' \<noteq> ''#'' \<and> take 3 ''not-a-color'' \<noteq> ''rgb'' \<and>
   convertColor (JStr ''not-a-color'') = Inr JNull \<and>
   take 3 ''rgb(1,2'' = ''rgb'' \<and> re_match ''rgb(1,2'' = None \<and>
   convertColor (JStr ''rgb(1,2'') = Inr JNull \<and>
   (86 :: nat) < 256 \<and> hex 86 = ''56'' \<and> (10 :: nat) < 16 \<and> digitChar 10 = CHR ''a''"
proof -
  have h: "hex 86 = ''56''" "hex 52 = ''34''" "hex 18 = ''12''" "hex 255 = ''ff''" "hex 0 = ''00''"
    by code_simp+
  have n: "numToString 10 255 = ''255''" "numToString 10 0 = ''0''" by code_simp+
  have sp: "list_all is_space '' ''" by (simp add: is_space_def)
  have m: "re_match ''rgb(1,2'' = None" by code_simp
  have c: "digitChar 10 = CHR ''a''" by code_simp
  have b: "(255 :: nat) < 2 ^ 53" "(0 :: nat) < 2 ^ 53" by simp_all
  show ?thesis
    using h n sp m c b
      convertColor_shapes [of "0x123456" 255 0 0 "[]" "[]" "[]" "'' ''" "[]" "'' ''" "[]"
         "''ABC''" "''not-a-color''" 86 10]
      convertColor_shapes [of 0 0 0 0 "[]" "[]" "[]" "[]" "[]" "[]" "[]" "[]" "''rgb(1,2''" 0 0]
    by simp
qed

text \<open>
  C8.  On a session with no host context (\<^verbatim>\<open>this.doc\<close> is \<^verbatim>\<open>null\<close>), \<open>execCommand\<close>
  returns \<^verbatim>\<open>false\<close> for every command and leaves the object and the world,
  trace included, exactly as they were: no hook has run and no callback has
  been called.
\<close>

theorem execCommand_inactive:
  "doc s = None \<Longrightarrow> execCommand E command s w = (Inr (JBool False), s, w)"
  by (simp add: execCommand_def)

theorem execCommand_inactive_witness:
  "doc (new_session Webkit 0) = None \<and>
   execCommand sample_env ''bold'' (new_session Webkit 0) sample_world
     = (Inr (JBool False), new_session Webkit 0, sample_world)"
  using execCommand_inactive [of "new_session Webkit 0" sample_env "''bold''" sample_world]
  by (simp add: new_session_def)

text \<open>
  C9.  For every strategy and every argument that is not an element-kind node
  (\<^verbatim>\<open>null\<close>, or a node of another type), \<open>editableOn\<close> returns \<^verbatim>\<open>false\<close>, the
  object is unchanged (host context, target node and the frame with its
  listeners), and the world is unchanged but for the diagnostic in the log (so
  the listeners of every node are as before).
\<close>

theorem editableOn_non_element:
  assumes "\<not> element_kind nd w"
  shows "editableOn E nd s w =
           (Inr (JBool False), s,
            w\<lparr>trace := trace w @ [Debug ''checkNodeType() : Incorrect element type'']\<rparr>)"
  using checkNodeType_non_element [OF assms]
  by (cases "kind s")
     (simp_all add: editableOn_def base_editableOn_def gecko_editableOn_def
        webkit_editableOn_def ie_editableOn_def)

theorem editableOn_non_element_witness:
  "\<not> element_kind (Some 2) sample_world \<and> \<not> element_kind None sample_world \<and>
   editableOn sample_env (Some 2) (new_session Gecko 0) sample_world =
     (Inr (JBool False), new_session Gecko 0,
      sample_world\<lparr>trace := trace sample_world @ [Debug ''checkNodeType() : Incorrect element type'']\<rparr>) \<and>
   editableOn sample_env None (new_session Webkit 0) sample_world =
     (Inr (JBool False), new_session Webkit 0,
      sample_world\<lparr>trace := trace sample_world @ [Debug ''checkNodeType() : Incorrect element type'']\<rparr>) \<and>
   editableOn sample_env (Some 2) (new_session Trident 0) sample_world =
     (Inr (JBool False), new_session Trident 0,
      sample_world\<lparr>trace := trace sample_world @ [Debug ''checkNodeType() : Incorrect element type'']\<rparr>)"
proof -
  have n: "\<not> element_kind None sample_world"
    by (simp add: element_kind_def)
  show ?thesis
    using sample_text_kind n
      editableOn_non_element [OF sample_text_kind, of sample_env "new_session Gecko 0"]
      editableOn_non_element [OF n, of sample_env "new_session Webkit 0"]
      editableOn_non_element [OF sample_text_kind, of sample_env "new_session Trident 0"]
    by simp
qed

text \<open>
  C6.  Trident-style restore, on a session with a target node and a cached
  range.  If the cached text differs from the node's live text, the start of the
  cached range is moved forward by exactly the length of the range's text, and
  the moved range is selected.  If the cached text equals the live text, the
  cached range is selected as it is.
\<close>

theorem ie_highlightSelection_restore:
  assumes "node s = Some a" and "cachedRange s = Some r"
  shows "(cachedInnerText s \<noteq> Some (innerText (nodes w a)) \<longrightarrow>
            ie_highlightSelection s w =
              (Inr JUndef, s\<lparr>cachedRange := Some (moveStart (length (rg_text r)) r)\<rparr>,
               w\<lparr>documentSelection := Some (moveStart (length (rg_text r)) r),
                  trace := trace w @ [RangeSelect (moveStart (length (rg_text r)) r)]\<rparr>) \<and>
            rg_start (moveStart (length (rg_text r)) r) = rg_start r + length (rg_text r)) \<and>
         (cachedInnerText s = Some (innerText (nodes w a)) \<longrightarrow>
            ie_highlightSelection s w =
              (Inr JUndef, s, w\<lparr>documentSelection := Some r, trace := trace w @ [RangeSelect r]\<rparr>))"
  using assms by (simp add: ie_highlightSelection_def moveStart_def)

theorem ie_highlightSelection_restore_witness:
  "node ie_drifted = Some 1 \<and>
   cachedRange ie_drifted = Some \<lparr>rg_start = 0, rg_text = ''hello''\<rparr> \<and>
   cachedInnerText ie_drifted = Some ''hello'' \<and>
   innerText (nodes (world_of ie_on) 1) = ''hello world'' \<and>
   cachedRange (session_of (ie_highlightSelection ie_drifted (world_of ie_on)))
     = Some \<lparr>rg_start = 5, rg_text = []\<rparr> \<and>
   documentSelection (world_of (ie_highlightSelection ie_drifted (world_of ie_on)))
     = Some \<lparr>rg_start = 5, rg_text = []\<rparr> \<and>
   ie_highlightSelection (ie_drifted\<lparr>cachedInnerText := Some ''hello world''\<rparr>) (world_of ie_on)
     = (Inr JUndef, ie_drifted\<lparr>cachedInnerText := Some ''hello world''\<rparr>,
        (world_of ie_on)\<lparr>documentSelection := Some \<lparr>rg_start = 0, rg_text = ''hello''\<rparr>,
           trace := trace (world_of ie_on) @ [RangeSelect \<lparr>rg_start = 0, rg_text = ''hello''\<rparr>]\<rparr>)"
proof -
  have n: "node ie_drifted = Some 1" by (simp add: ie_drifted_def ie_on_session)
  have r: "cachedRange ie_drifted = Some \<lparr>rg_start = 0, rg_text = ''hello''\<rparr>"
    by (simp add: ie_drifted_def)
  have c: "cachedInnerText ie_drifted = Some ''hello''" by (simp add: ie_drifted_def)
  have n': "node (ie_drifted\<lparr>cachedInnerText := Some ''hello world''\<rparr>) = Some 1" using n by simp
  have r': "cachedRange (ie_drifted\<lparr>cachedInnerText := Some ''hello world''\<rparr>)
              = Some \<lparr>rg_start = 0, rg_text = ''hello''\<rparr>"
    using r by simp
  show ?thesis
    using n r c ie_on_text ie_highlightSelection_restore [OF n r, of "world_of ie_on"]
      ie_highlightSelection_restore [OF n' r', of "world_of ie_on"]
    by (simp add: outcome_defs moveStart_def)
qed

text \<open>
  C10.  \<open>checkCommandState\<close> changes the cached snapshot only in a call that
  also fires the change callback, with the snapshot it stores.  With no callback
  registered the object is left as it is and nothing is fired; if moreover the
  cache is \<^verbatim>\<open>null\<close> the call returns normally, so the next call finds the cache
  \<^verbatim>\<open>null\<close> again.  Once a callback is registered on an object whose cache is
  \<^verbatim>\<open>null\<close>, the next check fires it with the fresh snapshot, in whatever world
  \<open>w'\<close> it runs.
\<close>

theorem checkCommandState_cache_only_when_fired:
  "(cachedCommandArray (session_of (checkCommandState E s w)) \<noteq> cachedCommandArray s \<longrightarrow>
      (\<exists>cb c. stateChangeCallback s = Some cb \<and> captured s w = Inr c \<and>
         cachedCommandArray (session_of (checkCommandState E s w)) = Some c \<and>
         fired (trace (world_of (checkCommandState E s w))) = fired (trace w) @ [(cb, c)])) \<and>
   (stateChangeCallback s = None \<longrightarrow>
      session_of (checkCommandState E s w) = s \<and>
      fired (trace (world_of (checkCommandState E s w))) = fired (trace w)) \<and>
   (stateChangeCallback s = None \<and> cachedCommandArray s = None \<longrightarrow>
      result_of (checkCommandState E s w) = Inr (JBool True)) \<and>
   (cachedCommandArray s = None \<longrightarrow>
      (\<exists>c. captured (setStateChangeCallBack (Some cb') s) w' = Inr c \<and>
         result_of (checkCommandState E (setStateChangeCallBack (Some cb') s) w') = Inr (JBool True) \<and>
         cachedCommandArray (session_of (checkCommandState E (setStateChangeCallBack (Some cb') s) w')) = Some c \<and>
         fired (trace (world_of (checkCommandState E (setStateChangeCallBack (Some cb') s) w')))
           = fired (trace w') @ [(cb', c)]))"
proof (intro conjI impI)
  assume ne: "cachedCommandArray (session_of (checkCommandState E s w)) \<noteq> cachedCommandArray s"
  from checkCommandState_cases [of E s w]
  show "\<exists>cb c. stateChangeCallback s = Some cb \<and> captured s w = Inr c \<and>
         cachedCommandArray (session_of (checkCommandState E s w)) = Some c \<and>
         fired (trace (world_of (checkCommandState E s w))) = fired (trace w) @ [(cb, c)]"
  proof
    assume "\<exists>r ds. fired ds = [] \<and> checkCommandState E s w = (r, s, w\<lparr>trace := trace w @ ds\<rparr>)"
    with ne show ?thesis by (auto simp: outcome_defs)
  next
    assume "\<exists>cb c ds. fired ds = [] \<and> stateChangeCallback s = Some cb \<and> captured s w = Inr c \<and>
       checkCommandState E s w = (Inr (JBool True), s\<lparr>cachedCommandArray := Some c\<rparr>,
                            w\<lparr>trace := trace w @ ds @ [StateChange cb c]\<rparr>)"
    then show ?thesis by (auto simp: outcome_defs fired_append)
  qed
next
  assume none: "stateChangeCallback s = None"
  from checkCommandState_cases [of E s w] none
  obtain r ds where "fired ds = []" "checkCommandState E s w = (r, s, w\<lparr>trace := trace w @ ds\<rparr>)"
    by auto
  then show "session_of (checkCommandState E s w) = s"
    and "fired (trace (world_of (checkCommandState E s w))) = fired (trace w)"
    by (simp_all add: outcome_defs fired_append)
next
  assume a: "stateChangeCallback s = None \<and> cachedCommandArray s = None"
  then have "\<And>a. cachedCommandArray s \<noteq> Some (CArray a)" by simp
  from checkCommandState_first [OF this, of w E] a
  show "result_of (checkCommandState E s w) = Inr (JBool True)"
    by (auto simp: outcome_defs)
next
  assume a: "cachedCommandArray s = None"
  let ?s = "setStateChangeCallBack (Some cb') s"
  have "\<And>a. cachedCommandArray ?s \<noteq> Some (CArray a)"
    using a by (simp add: setStateChangeCallBack_def)
  from checkCommandState_first [OF this, of w' E]
  obtain c ds where "captured ?s w' = Inr c" "fired ds = []"
    "checkCommandState E ?s w' = (Inr (JBool True), ?s\<lparr>cachedCommandArray := Some c\<rparr>,
                            w'\<lparr>trace := trace w' @ ds @ [StateChange cb' c]\<rparr>)"
    by (auto simp: setStateChangeCallBack_def)
  then show "\<exists>c. captured ?s w' = Inr c \<and>
         result_of (checkCommandState E ?s w') = Inr (JBool True) \<and>
         cachedCommandArray (session_of (checkCommandState E ?s w')) = Some c \<and>
         fired (trace (world_of (checkCommandState E ?s w'))) = fired (trace w') @ [(cb', c)]"
    by (auto simp: outcome_defs fired_append)
qed

theorem checkCommandState_cache_only_when_fired_witness:
  "stateChangeCallback (session_of webkit_quiet) = None \<and>
   cachedCommandArray (session_of webkit_quiet) = None \<and>
   result_of (checkCommandState sample_env (session_of webkit_quiet) (world_of webkit_quiet))
     = Inr (JBool True) \<and>
   session_of (checkCommandState sample_env (session_of webkit_quiet) (world_of webkit_quiet))
     = session_of webkit_quiet \<and>
   fired (trace (world_of (checkCommandState sample_env (session_of webkit_quiet) (world_of webkit_quiet))))
     = fired (trace (world_of webkit_quiet)) \<and>
   cachedCommandArray (session_of (checkCommandState sample_env
       (setStateChangeCallBack (Some 7) (session_of webkit_quiet)) (world_of webkit_quiet)))
     \<noteq> cachedCommandArray (setStateChangeCallBack (Some 7) (session_of webkit_quiet)) \<and>
   length (fired (trace (world_of (checkCommandState sample_env
       (setStateChangeCallBack (Some 7) (session_of webkit_quiet)) (world_of webkit_quiet)))))
     = Suc (length (fired (trace (world_of webkit_quiet))))"
proof -
  have a: "stateChangeCallback (session_of webkit_quiet) = None"
    by (simp add: webkit_quiet_session new_session_def)
  have b: "cachedCommandArray (session_of webkit_quiet) = None"
    by (simp add: webkit_quiet_session new_session_def)
  have c: "cachedCommandArray (setStateChangeCallBack (Some 7) (session_of webkit_quiet)) = None"
    using b by (simp add: setStateChangeCallBack_def)
  show ?thesis
    using a b c
      checkCommandState_cache_only_when_fired
        [of sample_env "session_of webkit_quiet" "world_of webkit_quiet" 7 "world_of webkit_quiet"]
      checkCommandState_cache_only_when_fired
        [of sample_env "setStateChangeCallBack (Some 7) (session_of webkit_quiet)"
           "world_of webkit_quiet" 7 "world_of webkit_quiet"]
    by auto
qed

text \<open>
  C1.  On an active session with a change callback registered and no snapshot
  cached yet, the first call of \<open>checkCommandState\<close> returns normally and fires
  the callback with the captured snapshot.  The call after it raises a
  \<^verbatim>\<open>TypeError\<close>, in whatever world \<open>w2\<close> it runs, changed or not: the cache now
  holds an array, and the comparison reads \<^verbatim>\<open>this.commandArray[i]\<close>.
\<close>

theorem checkCommandState_second_call_raises:
  assumes "doc s \<noteq> None" and "node s \<noteq> None"
    and "stateChangeCallback s = Some cb" and "cachedCommandArray s = None"
  shows "result_of (checkCommandState E s w) = Inr (JBool True) \<and>
         (\<exists>c. captured s w = Inr c \<and>
            fired (trace (world_of (checkCommandState E s w))) = fired (trace w) @ [(cb, c)]) \<and>
         result_of (checkCommandState E (session_of (checkCommandState E s w)) w2) = Inl TypeError"
proof -
  have h: "\<And>a. cachedCommandArray s \<noteq> Some (CArray a)" using assms(4) by simp
  from checkCommandState_first [OF h, of w E] assms(1,2,3)
  obtain x xs ds where c: "captured s w = Inr (CArray (x # xs))" and f: "fired ds = []"
    and r: "checkCommandState E s w =
              (Inr (JBool True), s\<lparr>cachedCommandArray := Some (CArray (x # xs))\<rparr>,
               w\<lparr>trace := trace w @ ds @ [StateChange cb (CArray (x # xs))]\<rparr>)"
    by auto
  have "cachedCommandArray (s\<lparr>cachedCommandArray := Some (CArray (x # xs))\<rparr>) = Some (CArray (x # xs))"
    by simp
  from checkCommandState_cached [OF this, of E w2]
  have "result_of (checkCommandState E (s\<lparr>cachedCommandArray := Some (CArray (x # xs))\<rparr>) w2) = Inl TypeError"
    by (auto simp: outcome_defs)
  with c f r show ?thesis by (simp add: outcome_defs fired_append)
qed

theorem checkCommandState_second_call_raises_witness:
  "doc (session_of webkit_on) \<noteq> None \<and> node (session_of webkit_on) \<noteq> None \<and>
   stateChangeCallback (session_of webkit_on) = Some 7 \<and>
   cachedCommandArray (session_of webkit_on) = None \<and>
   result_of webkit_check1 = Inr (JBool True) \<and>
   fired (trace (world_of webkit_check1)) = [(7, sample_snapshot)] \<and>
   result_of webkit_check2 = Inl TypeError"
proof -
  have d: "doc (session_of webkit_on) \<noteq> None" by (simp add: webkit_on_session)
  have n: "node (session_of webkit_on) \<noteq> None" by (simp add: webkit_on_session)
  have c: "stateChangeCallback (session_of webkit_on) = Some 7" by (simp add: webkit_on_session)
  have a: "cachedCommandArray (session_of webkit_on) = None"
    by (simp add: webkit_on_session new_session_def)
  show ?thesis
    using d n c a webkit_on_captured webkit_on_trace
      checkCommandState_second_call_raises
        [OF d n c a, of sample_env "world_of webkit_on" "world_of webkit_check1"]
    by (simp add: webkit_check1_def webkit_check2_def)
qed

text \<open>
  C5.  On an active session of any of the three strategies that has a change
  callback registered, \<open>execCommand\<close> does not return the host's boolean: it
  raises a \<^verbatim>\<open>TypeError\<close>, whatever the command and whatever the host answers.
  The post-hook's \<^verbatim>\<open>update\<close> checks the command state once, and the state
  re-check of \<open>execCommand\<close> checks it again; whichever of the two calls finds
  an array in the cache reads \<^verbatim>\<open>this.commandArray[i]\<close> and raises.
\<close>

theorem execCommand_raises_with_callback:
  assumes "kind s \<noteq> Base" and "doc s \<noteq> None" and "node s \<noteq> None"
    and "stateChangeCallback s = Some cb" and "cachedCommandArray s \<noteq> Some (CArray [])"
  shows "result_of (execCommand E command s w) = Inl TypeError"
proof -
  obtain d where d: "doc s = Some d" using assms(2) by auto
  from preExecCommand_keeps [OF assms(3), of w]
  obtain s1 w1 where pre: "preExecCommand s w = (Inr JUndef, s1, w1)"
    and k: "kind s1 \<noteq> Base" "doc s1 \<noteq> None" "node s1 \<noteq> None"
      "stateChangeCallback s1 = Some cb" "cachedCommandArray s1 \<noteq> Some (CArray [])"
    using assms by auto
  obtain ret h where x: "docExecCommand E command (JBool False) (JBool False) (rich w1) = (ret, h)"
    by (cases "docExecCommand E command (JBool False) (JBool False) (rich w1)")
  let ?w2 = "w1\<lparr>rich := h, trace := trace w1 @ [HostExecCommand command (JBool False) (JBool False)]\<rparr>"
  from postExecCommand_caches [OF k, of E ?w2]
  show ?thesis
  proof
    assume "\<exists>s3 w3. postExecCommand E s1 ?w2 = (Inl TypeError, s3, w3)"
    then show ?thesis by (auto simp: execCommand_def d pre x outcome_defs)
  next
    assume "\<exists>r s3 w3 x xs. postExecCommand E s1 ?w2 = (Inr r, s3, w3) \<and>
              cachedCommandArray s3 = Some (CArray (x # xs))"
    then obtain r s3 w3 y ys where post: "postExecCommand E s1 ?w2 = (Inr r, s3, w3)"
      and c: "cachedCommandArray s3 = Some (CArray (y # ys))" by blast
    from checkCommandState_cached [OF c, of E w3]
    show ?thesis by (auto simp: execCommand_def d pre x post outcome_defs)
  qed
qed

theorem execCommand_raises_with_callback_witness:
  "kind (session_of webkit_on) \<noteq> Base \<and> doc (session_of webkit_on) \<noteq> None \<and>
   node (session_of webkit_on) \<noteq> None \<and> stateChangeCallback (session_of webkit_on) = Some 7 \<and>
   cachedCommandArray (session_of webkit_on) \<noteq> Some (CArray []) \<and>
   fst (docExecCommand sample_env ''bold'' (JBool False) (JBool False) (rich (world_of webkit_on))) \<and>
   result_of webkit_bold = Inl TypeError"
proof -
  have k: "kind (session_of webkit_on) \<noteq> Base" by (simp add: webkit_on_session new_session_def)
  have d: "doc (session_of webkit_on) \<noteq> None" by (simp add: webkit_on_session)
  have n: "node (session_of webkit_on) \<noteq> None" by (simp add: webkit_on_session)
  have c: "stateChangeCallback (session_of webkit_on) = Some 7" by (simp add: webkit_on_session)
  have a: "cachedCommandArray (session_of webkit_on) \<noteq> Some (CArray [])"
    by (simp add: webkit_on_session new_session_def)
  have h: "fst (docExecCommand sample_env ''bold'' (JBool False) (JBool False) (rich (world_of webkit_on)))"
    by (simp add: sample_env_def)
  show ?thesis
    using k d n c a h
      execCommand_raises_with_callback [OF k d n c a, of sample_env "''bold''" "world_of webkit_on"]
    by (simp add: webkit_bold_def)
qed

text \<open>
  C2.  For the Gecko-style strategy, \<open>editableOff\<close> on a session without a frame
  changes nothing, logs nothing, returns \<^verbatim>\<open>undefined\<close> and raises nothing; and
  after any \<open>editableOff\<close> that returned, a second one is that same no-op.
\<close>

theorem gecko_editableOff_inactive:
  assumes "kind s = Gecko"
  shows "(iframe s = None \<longrightarrow> editableOff s w = (Inr JUndef, s, w)) \<and>
         (result_of (editableOff s w) = Inr v \<longrightarrow>
            editableOff (session_of (editableOff s w)) (world_of (editableOff s w))
              = (Inr JUndef, session_of (editableOff s w), world_of (editableOff s w)))"
  using assms
  by (auto simp: editableOff_def gecko_editableOff_def outcome_defs Let_def split: option.splits)

theorem gecko_editableOff_inactive_witness:
  "kind (new_session Gecko 0) = Gecko \<and> iframe (new_session Gecko 0) = None \<and>
   editableOff (new_session Gecko 0) sample_world = (Inr JUndef, new_session Gecko 0, sample_world) \<and>
   kind (session_of gecko_on) = Gecko \<and>
   result_of gecko_off = Inr JUndef \<and>
   gecko_off_again = (Inr JUndef, session_of gecko_off, world_of gecko_off)"
proof -
  have k: "kind (new_session Gecko 0) = Gecko" by (simp add: new_session_def)
  have i: "iframe (new_session Gecko 0) = None" by (simp add: new_session_def)
  have k2: "kind (session_of gecko_on) = Gecko" using gecko_on_facts by simp
  have r: "result_of gecko_off = Inr JUndef" using gecko_off_facts by simp
  show ?thesis
    using k i k2 r gecko_editableOff_inactive [OF k, of sample_world JUndef]
      gecko_editableOff_inactive [OF k2, of "world_of gecko_on" JUndef]
    by (simp add: gecko_off_def gecko_off_again_def)
qed

theorem editableOff_inactive_counterexample:
  "result_of (editableOff (new_session Webkit 0) sample_world) = Inl TypeError \<and>
   result_of (editableOff (new_session Trident 0) sample_world) = Inl TypeError \<and>
   editableOff (new_session Gecko 0) sample_world = (Inr JUndef, new_session Gecko 0, sample_world)"
  by (simp add: editableOff_def webkit_editableOff_def ie_editableOff_def gecko_editableOff_def
        new_session_def outcome_defs)

text \<open>
  C3.  For every strategy \<open>editableOn\<close> returns \<^verbatim>\<open>false\<close>, with the diagnostic,
  when its argument is not an element-kind node.  On an element-kind node the
  Webkit and Trident strategies activate and return \<^verbatim>\<open>undefined\<close>; the Gecko
  strategy returns \<^verbatim>\<open>undefined\<close> whenever it returns at all (never \<^verbatim>\<open>true\<close>), and
  it does return when the node has a parent, the document has a style element
  and no snapshot is cached.
\<close>

theorem editableOn_result:
  "(\<not> element_kind nd w \<longrightarrow>
      result_of (editableOn E nd s w) = Inr (JBool False) \<and>
      trace (world_of (editableOn E nd s w)) = trace w @ [Debug ''checkNodeType() : Incorrect element type'']) \<and>
   (element_kind nd w \<and> (kind s = Webkit \<or> kind s = Trident) \<longrightarrow>
      result_of (editableOn E nd s w) = Inr JUndef \<and>
      doc (session_of (editableOn E nd s w)) = Some HostingDocument \<and>
      node (session_of (editableOn E nd s w)) = nd) \<and>
   (element_kind nd w \<and> kind s = Gecko \<longrightarrow>
      result_of (editableOn E nd s w) = Inr JUndef \<or> result_of (editableOn E nd s w) = Inl TypeError) \<and>
   (element_kind nd w \<and> kind s = Gecko \<and> nd = Some a \<and> a < next_addr w \<and>
    parentNode (nodes w a) \<noteq> None \<and> styleElements w \<noteq> [] \<and> cachedCommandArray s = None \<longrightarrow>
      result_of (editableOn E nd s w) = Inr JUndef \<and>
      doc (session_of (editableOn E nd s w)) = Some FrameDocument)"
proof (intro conjI impI)
  assume "\<not> element_kind nd w"
  from checkNodeType_non_element [OF this]
  show "result_of (editableOn E nd s w) = Inr (JBool False)"
    and "trace (world_of (editableOn E nd s w)) = trace w @ [Debug ''checkNodeType() : Incorrect element type'']"
    by (cases "kind s";
        simp add: editableOn_def base_editableOn_def gecko_editableOn_def
          webkit_editableOn_def ie_editableOn_def outcome_defs)+
next
  assume a: "element_kind nd w \<and> (kind s = Webkit \<or> kind s = Trident)"
  then have e: "element_kind nd w" and k: "kind s = Webkit \<or> kind s = Trident" by simp_all
  from inplace_editableOn_ok [OF e k, of E]
  show "result_of (editableOn E nd s w) = Inr JUndef"
    and "doc (session_of (editableOn E nd s w)) = Some HostingDocument"
    and "node (session_of (editableOn E nd s w)) = nd"
    by simp_all
next
  assume "element_kind nd w \<and> kind s = Gecko"
  with gecko_editableOn_element_result [of nd w E s]
  show "result_of (editableOn E nd s w) = Inr JUndef \<or> result_of (editableOn E nd s w) = Inl TypeError"
    by (simp add: editableOn_def)
next
  assume a: "element_kind nd w \<and> kind s = Gecko \<and> nd = Some a \<and> a < next_addr w \<and>
    parentNode (nodes w a) \<noteq> None \<and> styleElements w \<noteq> [] \<and> cachedCommandArray s = None"
  then have "element_kind (Some a) w" "a < next_addr w" "parentNode (nodes w a) \<noteq> None"
    "styleElements w \<noteq> []" "cachedCommandArray s = None" by auto
  from gecko_editableOn_ok [OF this, of E] a
  show "result_of (editableOn E nd s w) = Inr JUndef"
    and "doc (session_of (editableOn E nd s w)) = Some FrameDocument"
    by (simp_all add: editableOn_def)
qed

theorem editableOn_result_witness:
  "\<not> element_kind (Some 2) sample_world \<and>
   result_of (editableOn sample_env (Some 2) (new_session Gecko 0) sample_world) = Inr (JBool False) \<and>
   element_kind (Some 1) sample_world \<and>
   result_of (editableOn sample_env (Some 1) (new_session Trident 0) sample_world) = Inr JUndef \<and>
   (1 :: nat) < next_addr sample_world \<and> parentNode (nodes sample_world 1) \<noteq> None \<and>
   styleElements sample_world \<noteq> [] \<and> cachedCommandArray (new_session Gecko 0) = None \<and>
   result_of (editableOn sample_env (Some 1) (new_session Gecko 0) sample_world) = Inr JUndef"
proof -
  have f: "(1 :: nat) < next_addr sample_world" by (simp add: sample_world_def)
  have p: "parentNode (nodes sample_world 1) \<noteq> None" by (simp add: sample_world_def sample_element_def)
  have s: "styleElements sample_world \<noteq> []" by (simp add: sample_world_def)
  have c: "cachedCommandArray (new_session Gecko 0) = None" by (simp add: new_session_def)
  have kg: "kind (new_session Gecko 0) = Gecko" by (simp add: new_session_def)
  have kt: "kind (new_session Trident 0) = Trident" by (simp add: new_session_def)
  show ?thesis
    using sample_text_kind sample_element_kind f p s c kg kt
      editableOn_result [of "Some 2" sample_world sample_env "new_session Gecko 0" 1]
      editableOn_result [of "Some 1" sample_world sample_env "new_session Trident 0" 1]
      editableOn_result [of "Some 1" sample_world sample_env "new_session Gecko 0" 1]
    by simp
qed

theorem editableOn_result_counterexample:
  "element_kind (Some 1) sample_world \<and>
   result_of webkit_quiet = Inr JUndef \<and> doc (session_of webkit_quiet) = Some HostingDocument \<and>
   result_of ie_on = Inr JUndef \<and> doc (session_of ie_on) = Some HostingDocument \<and>
   result_of gecko_on = Inr JUndef \<and> doc (session_of gecko_on) = Some FrameDocument"
proof -
  have kw: "kind (new_session Webkit 0) = Webkit \<or> kind (new_session Webkit 0) = Trident"
    by (simp add: new_session_def)
  have kt: "kind (new_session Trident 0) = Webkit \<or> kind (new_session Trident 0) = Trident"
    by (simp add: new_session_def)
  show ?thesis
    using sample_element_kind gecko_on_facts
      inplace_editableOn_ok [OF sample_element_kind kw, of sample_env]
      inplace_editableOn_ok [OF sample_element_kind kt, of sample_env]
    by (simp add: webkit_quiet_def ie_on_def)
qed

text \<open>
  C4.  When the Gecko-style strategy deactivates an active session, the node put
  back under the frame's parent gets, for width and for height alike, the frame's
  current value when the pre-activation snapshot (\<^verbatim>\<open>this.originalNode\<close>) has an
  inline value for that property, and the snapshot's own (unset) value when it
  has none.
\<close>

theorem gecko_editableOff_geometry:
  assumes "kind s = Gecko" and "iframe s = Some f" and "node s = Some a"
    and "originalNode s = Some orig" and "fr_parentNode f = Some p"
  shows "result_of (editableOff s w) = Inr JUndef \<and>
         parentNode (nodes (world_of (editableOff s w)) a) = Some p \<and>
         st_width (el_style (nodes (world_of (editableOff s w)) a)) =
           (if st_width (el_style (nodes w orig)) \<noteq> [] then st_width (fr_style f)
            else st_width (el_style (nodes w orig))) \<and>
         st_height (el_style (nodes (world_of (editableOff s w)) a)) =
           (if st_height (el_style (nodes w orig)) \<noteq> [] then st_height (fr_style f)
            else st_height (el_style (nodes w orig)))"
  using gecko_editableOff_run [OF assms, of w] by simp

theorem gecko_editableOff_geometry_witness:
  "kind (session_of gecko_on) = Gecko \<and> node (session_of gecko_on) = Some 10 \<and>
   originalNode (session_of gecko_on) = Some 11 \<and>
   fr_parentNode (the (iframe (session_of gecko_on))) = Some (PageNode 0) \<and>
   result_of gecko_off = Inr JUndef \<and>
   parentNode (nodes (world_of gecko_off) 10) = Some (PageNode 0) \<and>
   st_width (el_style (nodes (world_of gecko_off) 10)) = [] \<and>
   st_height (el_style (nodes (world_of gecko_off) 10)) = ''80px''"
proof -
  from gecko_on_facts obtain f where f: "iframe (session_of gecko_on) = Some f"
    and p: "fr_parentNode f = Some (PageNode 0)"
    and fw: "st_width (fr_style f) = ''100%''" and fh: "st_height (fr_style f) = ''80px''"
    by blast
  have k: "kind (session_of gecko_on) = Gecko" and n: "node (session_of gecko_on) = Some 10"
    and o: "originalNode (session_of gecko_on) = Some 11"
    using gecko_on_facts by simp_all
  show ?thesis
    using k n o f p fw fh gecko_on_facts
      gecko_editableOff_geometry [OF k f n o p, of "world_of gecko_on"]
    by (simp add: gecko_off_def)
qed

theorem gecko_editableOff_geometry_counterexample:
  "node (session_of gecko_on) = Some 10 \<and> originalNode (session_of gecko_on) = Some 11 \<and>
   st_width (el_style (nodes (world_of gecko_on) 11)) = [] \<and>
   st_width (iframe_style (session_of gecko_on)) = ''100%'' \<and>
   st_width (el_style (nodes (world_of gecko_off) 10)) = [] \<and>
   st_height (el_style (nodes (world_of gecko_on) 11)) = ''50px'' \<and>
   st_height (iframe_style (session_of gecko_on)) = ''80px'' \<and>
   st_height (el_style (nodes (world_of gecko_off) 10)) = ''80px'' \<and>
   parentNode (nodes (world_of gecko_off) 10) = Some (PageNode 0)"
proof -
  from gecko_on_facts obtain f where "iframe (session_of gecko_on) = Some f"
    "st_width (fr_style f) = ''100%''" "st_height (fr_style f) = ''80px''"
    by blast
  then show ?thesis
    using gecko_on_facts gecko_off_facts by (simp add: iframe_style_def)
qed

end
